theory Spec2Isabelle
  imports Main "HOL-Library.Word"
begin

section \<open>Solidity values and checked arithmetic\<close>

text \<open>
  The three contracts of the repository (ReputationNFT, ReputationTracker, TimeBooking)
  are compiled with Solidity 0.8: \<open>uint256\<close> arithmetic is checked, an overflow or an
  underflow aborts the call with a panic, a failed \<open>require\<close> aborts it with its
  message.  A call is a function from the state before to either an error or the state
  after; an aborted call leaves the state as it was (see \<open>after_call\<close>).
\<close>

type_synonym uint256 = "256 word"
type_synonym bytes32 = "256 word"
type_synonym address = "160 word"

datatype error = Revert string | Panic

type_synonym 'a result = "error + 'a"

definition bind :: "'a result \<Rightarrow> ('a \<Rightarrow> 'b result) \<Rightarrow> 'b result" where
  "bind r f = (case r of Inl e \<Rightarrow> Inl e | Inr v \<Rightarrow> f v)"

definition checked_add :: "uint256 \<Rightarrow> uint256 \<Rightarrow> uint256 result" where
  "checked_add a b = (if unat a + unat b < 2 ^ 256 then Inr (a + b) else Inl Panic)"

definition checked_sub :: "uint256 \<Rightarrow> uint256 \<Rightarrow> uint256 result" where
  "checked_sub a b = (if unat b \<le> unat a then Inr (a - b) else Inl Panic)"

definition checked_mul :: "uint256 \<Rightarrow> uint256 \<Rightarrow> uint256 result" where
  "checked_mul a b = (if unat a * unat b < 2 ^ 256 then Inr (a * b) else Inl Panic)"

text \<open>\<open>Counters.increment\<close> of OpenZeppelin adds one inside an \<open>unchecked\<close> block.\<close>

definition increment :: "uint256 \<Rightarrow> uint256" where
  "increment c = c + 1"

section \<open>ReputationNFT\<close>

datatype ReputationLevel = Bronze | Silver | Gold | Diamond

record ReputationData =
  totalScore :: uint256
  onchainScore :: uint256
  socialScore :: uint256
  tokenHoldingScore :: uint256
  level :: ReputationLevel
  transactionCount :: uint256
  volumeTraded :: uint256
  bookingsCompleted :: uint256
  averageRating :: uint256
  lastUpdated :: uint256
  isKOL :: bool

record LevelThresholds =
  bronze :: uint256
  silver :: uint256
  gold :: uint256
  diamond :: uint256

text \<open>
  The state of the ReputationNFT contract.  \<open>nft_tokenOwner\<close> is the ERC721 owner table
  (the zero address for a token that does not exist); the token URI, which only renders
  the record as text, is left out.
\<close>

record ReputationNFT =
  tokenIdCounter :: uint256
  userToTokenId :: "address \<Rightarrow> uint256"
  reputationData :: "uint256 \<Rightarrow> ReputationData"
  authorizedUpdaters :: "address \<Rightarrow> bool"
  levelThresholds :: LevelThresholds
  nft_owner :: address
  nft_tokenOwner :: "uint256 \<Rightarrow> address"

definition defaultThresholds :: LevelThresholds where
  "defaultThresholds = \<lparr>bronze = 0, silver = 1000, gold = 3000, diamond = 5000\<rparr>"

definition emptyReputationData :: ReputationData where
  "emptyReputationData =
     \<lparr>totalScore = 0, onchainScore = 0, socialScore = 0, tokenHoldingScore = 0,
      level = Bronze, transactionCount = 0, volumeTraded = 0, bookingsCompleted = 0,
      averageRating = 0, lastUpdated = 0, isKOL = False\<rparr>"

text \<open>The constructor, run by \<open>deployer\<close>.\<close>

definition nft_constructor :: "address \<Rightarrow> ReputationNFT" where
  "nft_constructor deployer =
     \<lparr>tokenIdCounter = 0, userToTokenId = (\<lambda>_. 0), reputationData = (\<lambda>_. emptyReputationData),
      authorizedUpdaters = (\<lambda>_. False), levelThresholds = defaultThresholds,
      nft_owner = deployer, nft_tokenOwner = (\<lambda>_. 0)\<rparr>"

definition calculateLevel :: "LevelThresholds \<Rightarrow> uint256 \<Rightarrow> ReputationLevel" where
  "calculateLevel th score =
     (if score \<ge> diamond th then Diamond
      else if score \<ge> gold th then Gold
      else if score \<ge> silver th then Silver
      else Bronze)"

text \<open>
  \<open>mintReputationNFT(to)\<close>.  \<open>_safeMint\<close> of ERC721 rejects the zero address and a token
  that exists already; the receiver hook it runs when the account is a contract is not
  modelled.
\<close>

definition mintReputationNFT :: "ReputationNFT \<Rightarrow> uint256 \<Rightarrow> address \<Rightarrow> (uint256 \<times> ReputationNFT) result" where
  "mintReputationNFT n now to =
     (if userToTokenId n to \<noteq> 0 then Inl (Revert ''User already has reputation NFT'')
      else
        let tokenId = increment (tokenIdCounter n) in
        if to = 0 then Inl (Revert ''ERC721: mint to the zero address'')
        else if nft_tokenOwner n tokenId \<noteq> 0 then Inl (Revert ''ERC721: token already minted'')
        else Inr (tokenId,
          n\<lparr>tokenIdCounter := tokenId,
            reputationData := (reputationData n)(tokenId := emptyReputationData\<lparr>lastUpdated := now\<rparr>),
            userToTokenId := (userToTokenId n)(to := tokenId),
            nft_tokenOwner := (nft_tokenOwner n)(tokenId := to)\<rparr>))"

text \<open>The weighted total of \<open>updateReputation\<close>: every product and sum is checked.\<close>

definition weightedTotal :: "uint256 \<Rightarrow> uint256 \<Rightarrow> uint256 \<Rightarrow> uint256 result" where
  "weightedTotal onchain social token =
     bind (checked_mul onchain 50) (\<lambda>a.
     bind (checked_mul social 40) (\<lambda>b.
     bind (checked_add a b) (\<lambda>ab.
     bind (checked_mul token 10) (\<lambda>c.
     bind (checked_add ab c) (\<lambda>abc.
     Inr (abc div 100))))))"

definition updateReputation ::
  "ReputationNFT \<Rightarrow> address \<Rightarrow> uint256 \<Rightarrow> address \<Rightarrow> uint256 \<Rightarrow> uint256 \<Rightarrow> uint256 \<Rightarrow>
   uint256 \<Rightarrow> uint256 \<Rightarrow> uint256 \<Rightarrow> uint256 \<Rightarrow> ReputationNFT result" where
  "updateReputation n sender now user onchain social token txCount volume completed avgRating =
     (if \<not> (authorizedUpdaters n sender \<or> sender = nft_owner n)
      then Inl (Revert ''Not authorized to update'')
      else
        let tokenId = userToTokenId n user in
        if tokenId = 0 then Inl (Revert ''User doesn't have reputation NFT'')
        else
          bind (weightedTotal onchain social token) (\<lambda>total.
            Inr (n\<lparr>reputationData := (reputationData n)(tokenId :=
              (reputationData n tokenId)
                \<lparr>onchainScore := onchain, socialScore := social, tokenHoldingScore := token,
                 transactionCount := txCount, volumeTraded := volume,
                 bookingsCompleted := completed, averageRating := avgRating,
                 totalScore := total, level := calculateLevel (levelThresholds n) total,
                 lastUpdated := now\<rparr>)\<rparr>)))"

definition setKOLStatus :: "ReputationNFT \<Rightarrow> address \<Rightarrow> address \<Rightarrow> bool \<Rightarrow> ReputationNFT result" where
  "setKOLStatus n sender user flag =
     (if \<not> (authorizedUpdaters n sender \<or> sender = nft_owner n)
      then Inl (Revert ''Not authorized'')
      else
        let tokenId = userToTokenId n user in
        if tokenId = 0 then Inl (Revert ''User doesn't have reputation NFT'')
        else Inr (n\<lparr>reputationData := (reputationData n)(tokenId :=
               (reputationData n tokenId)\<lparr>isKOL := flag\<rparr>)\<rparr>))"

definition setAuthorizedUpdater :: "ReputationNFT \<Rightarrow> address \<Rightarrow> address \<Rightarrow> bool \<Rightarrow> ReputationNFT result" where
  "setAuthorizedUpdater n sender updater authorized =
     (if sender \<noteq> nft_owner n then Inl (Revert ''Ownable: caller is not the owner'')
      else Inr (n\<lparr>authorizedUpdaters := (authorizedUpdaters n)(updater := authorized)\<rparr>))"

definition updateLevelThresholds ::
  "ReputationNFT \<Rightarrow> address \<Rightarrow> uint256 \<Rightarrow> uint256 \<Rightarrow> uint256 \<Rightarrow> uint256 \<Rightarrow> ReputationNFT result" where
  "updateLevelThresholds n sender b s g d =
     (if sender \<noteq> nft_owner n then Inl (Revert ''Ownable: caller is not the owner'')
      else Inr (n\<lparr>levelThresholds := \<lparr>bronze = b, silver = s, gold = g, diamond = d\<rparr>\<rparr>))"

section \<open>ReputationTracker and TimeBooking: the state\<close>

record UserActivity =
  totalTransactions :: uint256
  totalVolumeTraded :: uint256
  totalBookingsAsKOL :: uint256
  totalBookingsAsBuyer :: uint256
  totalBookingsCompleted :: uint256
  totalRatingSum :: uint256
  totalRatingCount :: uint256
  lastActivityTime :: uint256
  hasInteractedWith :: "address \<Rightarrow> bool"

record PointConfig =
  transactionBasePoints :: uint256
  volumeMultiplier :: uint256
  bookingCreatedPoints :: uint256
  bookingAcceptedPoints :: uint256
  bookingCompletedPoints :: uint256
  highRatingBonus :: uint256
  diversityBonus :: uint256
  activityStreakBonus :: uint256

record SocialMetrics =
  xFollowers :: uint256
  xEngagement :: uint256
  discordActivity :: uint256
  githubContributions :: uint256
  xConnected :: bool
  discordConnected :: bool
  githubConnected :: bool

record ReputationTracker =
  rt_reputationNFT :: address
  rt_timeBooking :: address
  userActivities :: "address \<Rightarrow> UserActivity"
  socialMetrics :: "address \<Rightarrow> SocialMetrics"
  userTokenHoldings :: "address \<Rightarrow> uint256"
  isRegisteredKOL :: "address \<Rightarrow> bool"
  pointConfig :: PointConfig
  processedTransactions :: "bytes32 \<Rightarrow> bool"
  rt_owner :: address

datatype BookingStatus = Pending | Accepted | Rejected | Completed | Cancelled | Disputed | Expired

record Booking =
  bookingId :: uint256
  tokenId :: uint256
  buyer :: address
  kol :: address
  pricePerSlot :: uint256
  totalSlots :: uint256
  totalAmount :: uint256
  fromTime :: uint256
  toTime :: uint256
  reason :: string
  status :: BookingStatus
  createdAt :: uint256
  updatedAt :: uint256
  sessionEndTime :: uint256
  disputeReported :: bool
  rating :: uint256
  ratingSubmitted :: bool

text \<open>
  The state of the TimeBooking contract.  \<open>balance\<close> is the ether the contract holds.
  \<open>sent\<close> records every ether transfer the contract has made, oldest first: the booking
  whose operation made it (none for the owner's withdrawal), the recipient and the amount.
  \<open>ticketOwner\<close> and \<open>ticketURI\<close> are the ERC721 tables of the booking tickets.
\<close>

record TimeBooking =
  bookingIds :: uint256
  tokenIds :: uint256
  bookings :: "uint256 \<Rightarrow> Booking"
  buyerBookings :: "address \<Rightarrow> uint256 list"
  kolBookings :: "address \<Rightarrow> uint256 list"
  ticketOwner :: "uint256 \<Rightarrow> address"
  ticketURI :: "uint256 \<Rightarrow> string"
  platformFeePercent :: uint256
  feeRecipient :: address
  reputationTracker :: address
  tb_owner :: address
  balance :: nat
  sent :: "(uint256 option \<times> address \<times> nat) list"

text \<open>
  The deployed system: the three contracts and their addresses.  A call to an address
  that is none of them finds no function to run and reverts.  Of the accounts outside
  the system only one thing matters: \<open>acceptsEther\<close> says whether a plain transfer of
  ether to the account goes through (an externally owned account, or a contract whose
  receive function accepts within the gas stipend of \<open>transfer\<close>, too small for a call
  back into the system, so the reentrancy guards never fire and are not modelled).  The
  tracker and the reputation token never call TimeBooking, so their functions work on
  their own part of the state.
\<close>

record reputation =
  rt :: ReputationTracker
  nft :: ReputationNFT
  rtAddr :: address
  nftAddr :: address

record world =
  tb :: TimeBooking
  tbAddr :: address
  rep :: reputation
  acceptsEther :: "address \<Rightarrow> bool"

text \<open>A call that reverts leaves the state it started from.\<close>

definition after_call :: "'s \<Rightarrow> 's result \<Rightarrow> 's" where
  "after_call w r = (case r of Inl e \<Rightarrow> w | Inr w' \<Rightarrow> w')"

section \<open>ReputationTracker\<close>

definition emptyActivity :: UserActivity where
  "emptyActivity =
     \<lparr>totalTransactions = 0, totalVolumeTraded = 0, totalBookingsAsKOL = 0,
      totalBookingsAsBuyer = 0, totalBookingsCompleted = 0, totalRatingSum = 0,
      totalRatingCount = 0, lastActivityTime = 0, hasInteractedWith = (\<lambda>_. False)\<rparr>"

definition emptySocial :: SocialMetrics where
  "emptySocial =
     \<lparr>xFollowers = 0, xEngagement = 0, discordActivity = 0, githubContributions = 0,
      xConnected = False, discordConnected = False, githubConnected = False\<rparr>"

definition defaultPointConfig :: PointConfig where
  "defaultPointConfig =
     \<lparr>transactionBasePoints = 10, volumeMultiplier = 1, bookingCreatedPoints = 50,
      bookingAcceptedPoints = 75, bookingCompletedPoints = 100, highRatingBonus = 25,
      diversityBonus = 5, activityStreakBonus = 10\<rparr>"

definition rt_constructor :: "address \<Rightarrow> address \<Rightarrow> address \<Rightarrow> ReputationTracker" where
  "rt_constructor deployer nftAddress bookingAddress =
     \<lparr>rt_reputationNFT = nftAddress, rt_timeBooking = bookingAddress,
      userActivities = (\<lambda>_. emptyActivity), socialMetrics = (\<lambda>_. emptySocial),
      userTokenHoldings = (\<lambda>_. 0), isRegisteredKOL = (\<lambda>_. False),
      pointConfig = defaultPointConfig, processedTransactions = (\<lambda>_. False),
      rt_owner = deployer\<rparr>"

definition calculateOnchainScore :: "ReputationTracker \<Rightarrow> address \<Rightarrow> uint256 result" where
  "calculateOnchainScore r user =
     (let activity = userActivities r user; cfg = pointConfig r in
      bind (checked_mul (totalTransactions activity) (transactionBasePoints cfg)) (\<lambda>p1.
      bind (checked_add 0 p1) (\<lambda>s1.
      bind (checked_mul (totalVolumeTraded activity) (volumeMultiplier cfg)) (\<lambda>p2.
      bind (checked_add s1 (p2 div 1000000000000000000)) (\<lambda>s2.
      bind (checked_mul (totalBookingsAsBuyer activity) (bookingCreatedPoints cfg)) (\<lambda>p3.
      bind (checked_add s2 p3) (\<lambda>s3.
      bind (checked_mul (totalBookingsAsKOL activity) (bookingAcceptedPoints cfg)) (\<lambda>p4.
      bind (checked_add s3 p4) (\<lambda>s4.
      bind (checked_mul (totalBookingsCompleted activity) (bookingCompletedPoints cfg)) (\<lambda>p5.
      bind (checked_add s4 p5) (\<lambda>s5.
      if totalRatingCount activity > 0
           \<and> totalRatingSum activity div totalRatingCount activity \<ge> 45
      then bind (checked_mul (highRatingBonus cfg) (totalBookingsCompleted activity)) (\<lambda>p6.
           checked_add s5 p6)
      else Inr s5)))))))))))"

definition calculateSocialScore :: "ReputationTracker \<Rightarrow> address \<Rightarrow> uint256 result" where
  "calculateSocialScore r user =
     (let social = socialMetrics r user in
      bind (if xConnected social
            then bind (checked_add 0 (xFollowers social div 10)) (\<lambda>s.
                 checked_add s (xEngagement social div 5))
            else Inr 0) (\<lambda>s1.
      bind (if discordConnected social then checked_add s1 (discordActivity social) else Inr s1) (\<lambda>s2.
      bind (if githubConnected social
            then bind (checked_mul (githubContributions social) 2) (checked_add s2)
            else Inr s2) (\<lambda>s3.
      let c1 = (if xConnected social then 1 else 0);
          c2 = (if discordConnected social then c1 + 1 else c1);
          connections = (if githubConnected social then c2 + 1 else c2) in
      bind (checked_mul connections 100) (checked_add s3)))))"

definition calculateTokenHoldingScore :: "ReputationTracker \<Rightarrow> address \<Rightarrow> uint256" where
  "calculateTokenHoldingScore r user = userTokenHoldings r user div 100000000000000000000"

definition calculateTotalScore :: "ReputationTracker \<Rightarrow> address \<Rightarrow> uint256 result" where
  "calculateTotalScore r user =
     bind (calculateOnchainScore r user) (\<lambda>onchain.
     bind (calculateSocialScore r user) (\<lambda>social.
     weightedTotal onchain social (calculateTokenHoldingScore r user)))"

text \<open>
  A call from the tracker to its \<open>reputationNFT\<close> address runs the ReputationNFT
  contract when that is where the address points, with the tracker as \<open>msg.sender\<close>.
\<close>

definition nft_at :: "reputation \<Rightarrow> (ReputationNFT \<Rightarrow> 'a result) \<Rightarrow> 'a result" where
  "nft_at w f = (if rt_reputationNFT (rt w) = nftAddr w then f (nft w) else Inl (Revert []))"

definition updateUserReputation :: "reputation \<Rightarrow> uint256 \<Rightarrow> address \<Rightarrow> reputation result" where
  "updateUserReputation w now user =
     bind (nft_at w (\<lambda>n. Inr (userToTokenId n user))) (\<lambda>tid.
     if tid = 0 then Inr w
     else
       let activity = userActivities (rt w) user in
       bind (calculateOnchainScore (rt w) user) (\<lambda>onchain.
       bind (calculateSocialScore (rt w) user) (\<lambda>social.
       let token = calculateTokenHoldingScore (rt w) user;
           avg = (if totalRatingCount activity > 0
                  then totalRatingSum activity div totalRatingCount activity else 0) in
       bind (nft_at w (\<lambda>n. updateReputation n (rtAddr w) now user onchain social token
               (totalTransactions activity) (totalVolumeTraded activity)
               (totalBookingsCompleted activity) avg)) (\<lambda>n'.
       Inr (w\<lparr>nft := n'\<rparr>)))))"

text \<open>
  Every tracking function ends by emitting \<open>ActivityTracked\<close> with
  \<open>_calculateTotalScore(user)\<close>: the event is not kept, but computing its argument can
  overflow and abort the call.
\<close>

definition emitActivityTracked :: "reputation \<Rightarrow> address \<Rightarrow> reputation result" where
  "emitActivityTracked w user = bind (calculateTotalScore (rt w) user) (\<lambda>_. Inr w)"

definition registerUser :: "reputation \<Rightarrow> address \<Rightarrow> uint256 \<Rightarrow> reputation result" where
  "registerUser w sender now =
     bind (nft_at w (\<lambda>n. Inr (userToTokenId n sender))) (\<lambda>existing.
     if existing \<noteq> 0 then Inl (Revert ''User already registered'')
     else
       bind (nft_at w (\<lambda>n. mintReputationNFT n now sender)) (\<lambda>(tid, n').
       Inr (w\<lparr>nft := n',
              rt := (rt w)\<lparr>userActivities := (userActivities (rt w))(sender :=
                      (userActivities (rt w) sender)\<lparr>lastActivityTime := now\<rparr>)\<rparr>\<rparr>)))"

definition trackTransaction ::
  "reputation \<Rightarrow> address \<Rightarrow> uint256 \<Rightarrow> address \<Rightarrow> uint256 \<Rightarrow> address \<Rightarrow> bytes32 \<Rightarrow> reputation result" where
  "trackTransaction w sender now user amount interactedWith txHash =
     (if processedTransactions (rt w) txHash then Inl (Revert ''Transaction already processed'')
      else
        let activity = userActivities (rt w) user; cfg = pointConfig (rt w) in
        bind (checked_add (totalTransactions activity) 1) (\<lambda>txs.
        bind (checked_add (totalVolumeTraded activity) amount) (\<lambda>vol.
        bind (checked_mul amount (volumeMultiplier cfg)) (\<lambda>vp.
        bind (checked_add (transactionBasePoints cfg) (vp div 1000000000000000000)) (\<lambda>points.
        let fresh = (interactedWith \<noteq> 0 \<and> \<not> hasInteractedWith activity interactedWith) in
        bind (if fresh then checked_add points (diversityBonus cfg) else Inr points) (\<lambda>points'.
        let activity' = activity\<lparr>totalTransactions := txs, totalVolumeTraded := vol,
              lastActivityTime := now,
              hasInteractedWith := (if fresh then (hasInteractedWith activity)(interactedWith := True)
                                    else hasInteractedWith activity)\<rparr>;
            w1 = w\<lparr>rt := (rt w)\<lparr>processedTransactions := (processedTransactions (rt w))(txHash := True),
                                 userActivities := (userActivities (rt w))(user := activity')\<rparr>\<rparr> in
        bind (updateUserReputation w1 now user) (\<lambda>w2.
        emitActivityTracked w2 user)))))))"

definition onlyTimeBooking :: "reputation \<Rightarrow> address \<Rightarrow> reputation result \<Rightarrow> reputation result" where
  "onlyTimeBooking w sender body =
     (if sender \<noteq> rt_timeBooking (rt w) then Inl (Revert ''Only TimeBooking contract'') else body)"

definition trackBookingCreated :: "reputation \<Rightarrow> address \<Rightarrow> uint256 \<Rightarrow> address \<Rightarrow> uint256 \<Rightarrow> reputation result" where
  "trackBookingCreated w sender now buyerAddr bid =
     onlyTimeBooking w sender
       (let activity = userActivities (rt w) buyerAddr in
        bind (checked_add (totalBookingsAsBuyer activity) 1) (\<lambda>cnt.
        let w1 = w\<lparr>rt := (rt w)\<lparr>userActivities := (userActivities (rt w))(buyerAddr :=
                     activity\<lparr>totalBookingsAsBuyer := cnt, lastActivityTime := now\<rparr>)\<rparr>\<rparr> in
        bind (updateUserReputation w1 now buyerAddr) (\<lambda>w2.
        emitActivityTracked w2 buyerAddr)))"

definition trackBookingAccepted :: "reputation \<Rightarrow> address \<Rightarrow> uint256 \<Rightarrow> address \<Rightarrow> uint256 \<Rightarrow> reputation result" where
  "trackBookingAccepted w sender now kolAddr bid =
     onlyTimeBooking w sender
       (let activity = userActivities (rt w) kolAddr in
        bind (checked_add (totalBookingsAsKOL activity) 1) (\<lambda>cnt.
        let w1 = w\<lparr>rt := (rt w)\<lparr>userActivities := (userActivities (rt w))(kolAddr :=
                     activity\<lparr>totalBookingsAsKOL := cnt, lastActivityTime := now\<rparr>)\<rparr>\<rparr> in
        bind (updateUserReputation w1 now kolAddr) (\<lambda>w2.
        bind (if \<not> isRegisteredKOL (rt w2) kolAddr
              then bind (nft_at w2 (\<lambda>n. setKOLStatus n (rtAddr w2) kolAddr True)) (\<lambda>n'.
                   Inr (w2\<lparr>rt := (rt w2)\<lparr>isRegisteredKOL := (isRegisteredKOL (rt w2))(kolAddr := True)\<rparr>,
                           nft := n'\<rparr>))
              else Inr w2) (\<lambda>w3.
        emitActivityTracked w3 kolAddr))))"

definition trackBookingCompleted ::
  "reputation \<Rightarrow> address \<Rightarrow> uint256 \<Rightarrow> address \<Rightarrow> address \<Rightarrow> uint256 \<Rightarrow> uint256 \<Rightarrow> reputation result" where
  "trackBookingCompleted w sender now kolAddr buyerAddr bid stars =
     onlyTimeBooking w sender
       (let kolActivity = userActivities (rt w) kolAddr in
        bind (checked_add (totalBookingsCompleted kolActivity) 1) (\<lambda>kc.
        bind (checked_add (totalRatingSum kolActivity) stars) (\<lambda>rs.
        bind (checked_add (totalRatingCount kolActivity) 1) (\<lambda>rc.
        let acts1 = (userActivities (rt w))(kolAddr := kolActivity\<lparr>totalBookingsCompleted := kc,
                      totalRatingSum := rs, totalRatingCount := rc, lastActivityTime := now\<rparr>);
            buyerActivity = acts1 buyerAddr in
        bind (checked_add (totalBookingsCompleted buyerActivity) 1) (\<lambda>bc.
        let acts2 = acts1(buyerAddr := buyerActivity\<lparr>totalBookingsCompleted := bc,
                      lastActivityTime := now\<rparr>);
            cfg = pointConfig (rt w) in
        bind (if stars \<ge> 45 then checked_add (bookingCompletedPoints cfg) (highRatingBonus cfg)
              else Inr (bookingCompletedPoints cfg)) (\<lambda>kolPoints.
        let w1 = w\<lparr>rt := (rt w)\<lparr>userActivities := acts2\<rparr>\<rparr> in
        bind (updateUserReputation w1 now kolAddr) (\<lambda>w2.
        bind (updateUserReputation w2 now buyerAddr) (\<lambda>w3.
        bind (emitActivityTracked w3 kolAddr) (\<lambda>w4.
        emitActivityTracked w4 buyerAddr)))))))))"

definition updateTokenHoldings :: "reputation \<Rightarrow> address \<Rightarrow> uint256 \<Rightarrow> address \<Rightarrow> uint256 \<Rightarrow> reputation result" where
  "updateTokenHoldings w sender now user bal =
     (if \<not> (sender = rt_owner (rt w) \<or> sender = user) then Inl (Revert ''Unauthorized'')
      else
        let w1 = w\<lparr>rt := (rt w)\<lparr>userTokenHoldings := (userTokenHoldings (rt w))(user := bal)\<rparr>\<rparr> in
        bind (updateUserReputation w1 now user) (\<lambda>w2.
        emitActivityTracked w2 user))"

definition updateSocialMetrics :: "reputation \<Rightarrow> address \<Rightarrow> uint256 \<Rightarrow> address \<Rightarrow> SocialMetrics \<Rightarrow> reputation result" where
  "updateSocialMetrics w sender now user metrics =
     (if \<not> (sender = rt_owner (rt w) \<or> sender = user) then Inl (Revert ''Unauthorized'')
      else
        let w1 = w\<lparr>rt := (rt w)\<lparr>socialMetrics := (socialMetrics (rt w))(user := metrics)\<rparr>\<rparr> in
        bind (updateUserReputation w1 now user) (\<lambda>w2.
        emitActivityTracked w2 user))"

definition rt_onlyOwner :: "reputation \<Rightarrow> address \<Rightarrow> reputation result \<Rightarrow> reputation result" where
  "rt_onlyOwner w sender body =
     (if sender \<noteq> rt_owner (rt w) then Inl (Revert ''Ownable: caller is not the owner'') else body)"

definition updatePointConfig :: "reputation \<Rightarrow> address \<Rightarrow> PointConfig \<Rightarrow> reputation result" where
  "updatePointConfig w sender newConfig =
     rt_onlyOwner w sender (Inr (w\<lparr>rt := (rt w)\<lparr>pointConfig := newConfig\<rparr>\<rparr>))"

definition setTimeBookingContract :: "reputation \<Rightarrow> address \<Rightarrow> address \<Rightarrow> reputation result" where
  "setTimeBookingContract w sender newTimeBooking =
     rt_onlyOwner w sender (Inr (w\<lparr>rt := (rt w)\<lparr>rt_timeBooking := newTimeBooking\<rparr>\<rparr>))"

definition setReputationNFTContract :: "reputation \<Rightarrow> address \<Rightarrow> address \<Rightarrow> reputation result" where
  "setReputationNFTContract w sender newReputationNFT =
     rt_onlyOwner w sender (Inr (w\<lparr>rt := (rt w)\<lparr>rt_reputationNFT := newReputationNFT\<rparr>\<rparr>))"

fun bulkUpdate :: "reputation \<Rightarrow> uint256 \<Rightarrow> address list \<Rightarrow> reputation result" where
  "bulkUpdate w now [] = Inr w"
| "bulkUpdate w now (u # us) = bind (updateUserReputation w now u) (\<lambda>w'. bulkUpdate w' now us)"

definition bulkUpdateReputations :: "reputation \<Rightarrow> address \<Rightarrow> uint256 \<Rightarrow> address list \<Rightarrow> reputation result" where
  "bulkUpdateReputations w sender now users = rt_onlyOwner w sender (bulkUpdate w now users)"

section \<open>TimeBooking\<close>

definition EXPIRY_PERIOD :: uint256 where "EXPIRY_PERIOD = 432000"
definition DISPUTE_PERIOD :: uint256 where "DISPUTE_PERIOD = 86400"
definition MIN_SLOT_DURATION :: uint256 where "MIN_SLOT_DURATION = 1800"

definition emptyBooking :: Booking where
  "emptyBooking =
     \<lparr>bookingId = 0, tokenId = 0, buyer = 0, kol = 0, pricePerSlot = 0, totalSlots = 0,
      totalAmount = 0, fromTime = 0, toTime = 0, reason = [], status = Pending,
      createdAt = 0, updatedAt = 0, sessionEndTime = 0, disputeReported = False,
      rating = 0, ratingSubmitted = False\<rparr>"

definition tb_constructor :: "address \<Rightarrow> address \<Rightarrow> TimeBooking" where
  "tb_constructor deployer recipient =
     \<lparr>bookingIds = 0, tokenIds = 0, bookings = (\<lambda>_. emptyBooking),
      buyerBookings = (\<lambda>_. []), kolBookings = (\<lambda>_. []),
      ticketOwner = (\<lambda>_. 0), ticketURI = (\<lambda>_. []),
      platformFeePercent = 250, feeRecipient = recipient, reputationTracker = 0,
      tb_owner = deployer, balance = 0, sent = []\<rparr>"

text \<open>
  Who can be paid: an account that accepts ether and is none of the three contracts,
  which declare neither a receive nor a fallback function.
\<close>

definition canReceive :: "world \<Rightarrow> address \<Rightarrow> bool" where
  "canReceive w a =
     (acceptsEther w a \<and> a \<noteq> tbAddr w \<and> a \<noteq> rtAddr (rep w) \<and> a \<noteq> nftAddr (rep w))"

text \<open>
  \<open>payable(to).transfer(amount)\<close>, run in the world \<open>w\<close> on the TimeBooking state \<open>t\<close>:
  it reverts when the contract holds less than \<open>amount\<close> and when the payee cannot
  receive ether.  The entry added to \<open>sent\<close> names the booking the transfer is made for.
\<close>

definition transfer ::
  "world \<Rightarrow> TimeBooking \<Rightarrow> uint256 option \<Rightarrow> address \<Rightarrow> nat \<Rightarrow> TimeBooking result" where
  "transfer w t tag to amount =
     (if amount \<le> balance t \<and> canReceive w to
      then Inr (t\<lparr>balance := balance t - amount, sent := sent t @ [(tag, to, amount)]\<rparr>)
      else Inl (Revert []))"

text \<open>
  A call from TimeBooking to its \<open>reputationTracker\<close>: skipped when the address is zero,
  run on the ReputationTracker contract, with TimeBooking as \<open>msg.sender\<close>, when the
  address is the tracker's.
\<close>

definition tracker_at :: "world \<Rightarrow> (reputation \<Rightarrow> address \<Rightarrow> reputation result) \<Rightarrow> world result" where
  "tracker_at w f =
     (if reputationTracker (tb w) = 0 then Inr w
      else if reputationTracker (tb w) = rtAddr (rep w)
        then bind (f (rep w) (tbAddr w)) (\<lambda>r'. Inr (w\<lparr>rep := r'\<rparr>))
      else Inl (Revert []))"

text \<open>
  The call \<open>f\<close> to the tracker goes through: no tracker is set, or the tracker is the
  one called and \<open>f\<close> does not revert on the current reputation state.
\<close>

definition tracker_accepts :: "world \<Rightarrow> (reputation \<Rightarrow> address \<Rightarrow> reputation result) \<Rightarrow> bool" where
  "tracker_accepts w f =
     (reputationTracker (tb w) = 0
      \<or> (reputationTracker (tb w) = rtAddr (rep w) \<and> \<not> isl (f (rep w) (tbAddr w))))"

text \<open>The two time conditions on a pending booking, as the \<open>require\<close>s compute them.\<close>

definition notExpired :: "Booking \<Rightarrow> uint256 \<Rightarrow> bool result" where
  "notExpired booking now =
     bind (checked_add (createdAt booking) EXPIRY_PERIOD) (\<lambda>deadline. Inr (now < deadline))"

definition isExpired :: "Booking \<Rightarrow> uint256 \<Rightarrow> bool result" where
  "isExpired booking now =
     bind (checked_add (createdAt booking) EXPIRY_PERIOD) (\<lambda>deadline. Inr (now \<ge> deadline))"

definition setBooking :: "world \<Rightarrow> uint256 \<Rightarrow> Booking \<Rightarrow> world" where
  "setBooking w bid b = w\<lparr>tb := (tb w)\<lparr>bookings := (bookings (tb w))(bid := b)\<rparr>\<rparr>"

definition refundBuyer :: "world \<Rightarrow> uint256 \<Rightarrow> Booking \<Rightarrow> world result" where
  "refundBuyer w bid booking =
     bind (transfer w (tb w) (Some bid) (buyer booking) (unat (totalAmount booking))) (\<lambda>t'.
     Inr (w\<lparr>tb := t'\<rparr>))"

text \<open>
  \<open>createBooking\<close>, called by \<open>sender\<close> with \<open>msg.value = paid\<close> at time \<open>now\<close>.  The ether
  sent with the call is part of the balance once the call has succeeded.
\<close>

definition createBooking ::
  "world \<Rightarrow> address \<Rightarrow> uint256 \<Rightarrow> uint256 \<Rightarrow> address \<Rightarrow> uint256 \<Rightarrow> uint256 \<Rightarrow> uint256 \<Rightarrow> uint256 \<Rightarrow>
   string \<Rightarrow> string \<Rightarrow> world result" where
  "createBooking w sender paid now kolAddr price slots from to rsn uri =
     (if kolAddr = 0 then Inl (Revert ''Invalid KOL address'')
      else if kolAddr = sender then Inl (Revert ''Cannot book yourself'')
      else if \<not> slots > 0 then Inl (Revert ''Invalid slot count'')
      else if \<not> from > now then Inl (Revert ''Invalid start time'')
      else if \<not> to > from then Inl (Revert ''Invalid time range'')
      else
        bind (checked_mul MIN_SLOT_DURATION slots) (\<lambda>minDuration.
        if \<not> to - from \<ge> minDuration then Inl (Revert ''Duration too short'')
        else
          bind (checked_mul price slots) (\<lambda>total.
          if paid \<noteq> total then Inl (Revert ''Incorrect payment amount'')
          else
            let t = tb w;
                newBookingId = increment (bookingIds t);
                newTokenId = increment (tokenIds t) in
            if sender = 0 then Inl (Revert ''ERC721: mint to the zero address'')
            else if ticketOwner t newTokenId \<noteq> 0 then Inl (Revert ''ERC721: token already minted'')
            else
              let t' = t\<lparr>bookingIds := newBookingId, tokenIds := newTokenId,
                     ticketOwner := (ticketOwner t)(newTokenId := sender),
                     ticketURI := (ticketURI t)(newTokenId := uri),
                     bookings := (bookings t)(newBookingId :=
                       \<lparr>bookingId = newBookingId, tokenId = newTokenId, buyer = sender,
                        kol = kolAddr, pricePerSlot = price, totalSlots = slots,
                        totalAmount = total, fromTime = from, toTime = to, reason = rsn,
                        status = Pending, createdAt = now, updatedAt = now,
                        sessionEndTime = 0, disputeReported = False, rating = 0,
                        ratingSubmitted = False\<rparr>),
                     buyerBookings := (buyerBookings t)(sender := buyerBookings t sender @ [newBookingId]),
                     kolBookings := (kolBookings t)(kolAddr := kolBookings t kolAddr @ [newBookingId]),
                     balance := balance t + unat paid\<rparr> in
              tracker_at (w\<lparr>tb := t'\<rparr>) (\<lambda>w' me. trackBookingCreated w' me now sender newBookingId))))"

definition acceptBooking :: "world \<Rightarrow> address \<Rightarrow> uint256 \<Rightarrow> uint256 \<Rightarrow> world result" where
  "acceptBooking w sender now bid =
     (let booking = bookings (tb w) bid in
      if kol booking \<noteq> sender then Inl (Revert ''Only KOL can accept'')
      else if status booking \<noteq> Pending then Inl (Revert ''Invalid status'')
      else
        bind (notExpired booking now) (\<lambda>inTime.
        if \<not> inTime then Inl (Revert ''Booking expired'')
        else
          tracker_at (setBooking w bid (booking\<lparr>status := Accepted, updatedAt := now\<rparr>))
            (\<lambda>w' me. trackBookingAccepted w' me now sender bid)))"

definition rejectBooking :: "world \<Rightarrow> address \<Rightarrow> uint256 \<Rightarrow> uint256 \<Rightarrow> world result" where
  "rejectBooking w sender now bid =
     (let booking = bookings (tb w) bid in
      if kol booking \<noteq> sender then Inl (Revert ''Only KOL can reject'')
      else if status booking \<noteq> Pending then Inl (Revert ''Invalid status'')
      else
        let booking' = booking\<lparr>status := Rejected, updatedAt := now\<rparr> in
        refundBuyer (setBooking w bid booking') bid booking')"

definition cancelBooking :: "world \<Rightarrow> address \<Rightarrow> uint256 \<Rightarrow> uint256 \<Rightarrow> world result" where
  "cancelBooking w sender now bid =
     (let booking = bookings (tb w) bid in
      if buyer booking \<noteq> sender then Inl (Revert ''Only buyer can cancel'')
      else if status booking \<noteq> Pending then Inl (Revert ''Invalid status'')
      else
        let booking' = booking\<lparr>status := Cancelled, updatedAt := now\<rparr> in
        refundBuyer (setBooking w bid booking') bid booking')"

definition completeSession :: "world \<Rightarrow> address \<Rightarrow> uint256 \<Rightarrow> uint256 \<Rightarrow> world result" where
  "completeSession w sender now bid =
     (let booking = bookings (tb w) bid in
      if kol booking \<noteq> sender then Inl (Revert ''Only KOL can complete'')
      else if status booking \<noteq> Accepted then Inl (Revert ''Invalid status'')
      else if \<not> now \<ge> toTime booking then Inl (Revert ''Session not ended yet'')
      else Inr (setBooking w bid (booking\<lparr>sessionEndTime := now, updatedAt := now\<rparr>)))"

definition reportDispute :: "world \<Rightarrow> address \<Rightarrow> uint256 \<Rightarrow> uint256 \<Rightarrow> string \<Rightarrow> world result" where
  "reportDispute w sender now bid rsn =
     (let booking = bookings (tb w) bid in
      if buyer booking \<noteq> sender then Inl (Revert ''Only buyer can report'')
      else if status booking \<noteq> Accepted then Inl (Revert ''Invalid status'')
      else if \<not> sessionEndTime booking > 0 then Inl (Revert ''Session not completed'')
      else
        bind (checked_add (sessionEndTime booking) DISPUTE_PERIOD) (\<lambda>deadline.
        if \<not> now \<le> deadline then Inl (Revert ''Dispute period expired'')
        else if disputeReported booking then Inl (Revert ''Already reported'')
        else Inr (setBooking w bid
               (booking\<lparr>disputeReported := True, status := Disputed, updatedAt := now\<rparr>))))"

definition rateSession :: "world \<Rightarrow> address \<Rightarrow> uint256 \<Rightarrow> uint256 \<Rightarrow> uint256 \<Rightarrow> world result" where
  "rateSession w sender now bid stars =
     (let booking = bookings (tb w) bid in
      if buyer booking \<noteq> sender then Inl (Revert ''Only buyer can rate'')
      else if \<not> (status booking = Accepted \<or> status booking = Completed)
        then Inl (Revert ''Invalid status'')
      else if \<not> sessionEndTime booking > 0 then Inl (Revert ''Session not completed'')
      else if \<not> (stars \<ge> 0 \<and> stars \<le> 50) then Inl (Revert ''Rating must be 0-50 (0-5 stars * 10)'')
      else if ratingSubmitted booking then Inl (Revert ''Rating already submitted'')
      else Inr (setBooking w bid
             (booking\<lparr>rating := stars, ratingSubmitted := True, updatedAt := now\<rparr>)))"

text \<open>
  \<open>releasePayment\<close>.  The four conditions of its \<open>require\<close> are joined by \<open>&&\<close>, so the
  dispute deadline is only computed for an accepted booking whose session has ended.
\<close>

definition releasePayment :: "world \<Rightarrow> address \<Rightarrow> uint256 \<Rightarrow> uint256 \<Rightarrow> world result" where
  "releasePayment w sender now bid =
     (let booking = bookings (tb w) bid in
      if status booking \<noteq> Accepted \<or> \<not> sessionEndTime booking > 0
      then Inl (Revert ''Cannot release payment'')
      else
        bind (checked_add (sessionEndTime booking) DISPUTE_PERIOD) (\<lambda>deadline.
        if \<not> now > deadline \<or> disputeReported booking then Inl (Revert ''Cannot release payment'')
        else
          let w1 = setBooking w bid (booking\<lparr>status := Completed, updatedAt := now\<rparr>) in
          bind (checked_mul (totalAmount booking) (platformFeePercent (tb w))) (\<lambda>scaled.
          let platformFee = scaled div 10000 in
          bind (checked_sub (totalAmount booking) platformFee) (\<lambda>kolPayment.
          bind (if platformFee > 0
                then transfer w1 (tb w1) (Some bid) (feeRecipient (tb w1)) (unat platformFee)
                else Inr (tb w1)) (\<lambda>t2.
          bind (transfer w1 t2 (Some bid) (kol booking) (unat kolPayment)) (\<lambda>t3.
          tracker_at (w1\<lparr>tb := t3\<rparr>) (\<lambda>w' me.
            trackBookingCompleted w' me now (kol booking) (buyer booking) bid
              (if ratingSubmitted booking then rating booking else 25))))))))"

definition handleExpiredBooking :: "world \<Rightarrow> address \<Rightarrow> uint256 \<Rightarrow> uint256 \<Rightarrow> world result" where
  "handleExpiredBooking w sender now bid =
     (let booking = bookings (tb w) bid in
      if status booking \<noteq> Pending then Inl (Revert ''Invalid status'')
      else
        bind (isExpired booking now) (\<lambda>expired.
        if \<not> expired then Inl (Revert ''Not expired yet'')
        else
          let booking' = booking\<lparr>status := Expired, updatedAt := now\<rparr> in
          refundBuyer (setBooking w bid booking') bid booking'))"

definition tb_onlyOwner :: "world \<Rightarrow> address \<Rightarrow> world result \<Rightarrow> world result" where
  "tb_onlyOwner w sender body =
     (if sender \<noteq> tb_owner (tb w) then Inl (Revert ''Ownable: caller is not the owner'') else body)"

definition setReputationTracker :: "world \<Rightarrow> address \<Rightarrow> address \<Rightarrow> world result" where
  "setReputationTracker w sender tracker =
     tb_onlyOwner w sender (Inr (w\<lparr>tb := (tb w)\<lparr>reputationTracker := tracker\<rparr>\<rparr>))"

definition setPlatformFee :: "world \<Rightarrow> address \<Rightarrow> uint256 \<Rightarrow> world result" where
  "setPlatformFee w sender feePercent =
     tb_onlyOwner w sender
       (if \<not> feePercent \<le> 1000 then Inl (Revert ''Fee too high'')
        else Inr (w\<lparr>tb := (tb w)\<lparr>platformFeePercent := feePercent\<rparr>\<rparr>))"

definition setFeeRecipient :: "world \<Rightarrow> address \<Rightarrow> address \<Rightarrow> world result" where
  "setFeeRecipient w sender recipient =
     tb_onlyOwner w sender
       (if recipient = 0 then Inl (Revert ''Invalid address'')
        else Inr (w\<lparr>tb := (tb w)\<lparr>feeRecipient := recipient\<rparr>\<rparr>))"

definition emergencyWithdraw :: "world \<Rightarrow> address \<Rightarrow> world result" where
  "emergencyWithdraw w sender =
     tb_onlyOwner w sender
       (bind (transfer w (tb w) None (tb_owner (tb w)) (balance (tb w))) (\<lambda>t'.
        Inr (w\<lparr>tb := t'\<rparr>)))"

text \<open>
  The system right after deployment by \<open>deployer\<close>, at three addresses, in a world
  whose accounts accept ether as \<open>accepts\<close> says.
\<close>

definition deploy ::
  "address \<Rightarrow> address \<Rightarrow> address \<Rightarrow> address \<Rightarrow> address \<Rightarrow> (address \<Rightarrow> bool) \<Rightarrow> world" where
  "deploy deployer recipient a\<^sub>t\<^sub>b a\<^sub>r\<^sub>t a\<^sub>n\<^sub>f\<^sub>t accepts =
     \<lparr>tb = tb_constructor deployer recipient, tbAddr = a\<^sub>t\<^sub>b,
      rep = \<lparr>rt = rt_constructor deployer a\<^sub>n\<^sub>f\<^sub>t a\<^sub>t\<^sub>b, nft = nft_constructor deployer,
             rtAddr = a\<^sub>r\<^sub>t, nftAddr = a\<^sub>n\<^sub>f\<^sub>t\<rparr>,
      acceptsEther = accepts\<rparr>"

section \<open>Sequences of calls to the reputation contracts\<close>

text \<open>
  Every way the two reputation contracts can be called from outside: the external
  functions of ReputationTracker, and those of ReputationNFT called directly.
\<close>

datatype rep_op =
    RegisterUser
  | TrackTransaction address uint256 address bytes32
  | TrackBookingCreated address uint256
  | TrackBookingAccepted address uint256
  | TrackBookingCompleted address address uint256 uint256
  | UpdateTokenHoldings address uint256
  | UpdateSocialMetrics address SocialMetrics
  | UpdatePointConfig PointConfig
  | SetTimeBookingContract address
  | SetReputationNFTContract address
  | BulkUpdateReputations "address list"
  | MintReputationNFT address
  | UpdateReputation address uint256 uint256 uint256 uint256 uint256 uint256 uint256
  | SetKOLStatus address bool
  | SetAuthorizedUpdater address bool
  | UpdateLevelThresholds uint256 uint256 uint256 uint256

definition on_nft :: "reputation \<Rightarrow> ReputationNFT result \<Rightarrow> reputation result" where
  "on_nft r res = bind res (\<lambda>n'. Inr (r\<lparr>nft := n'\<rparr>))"

fun rep_call :: "reputation \<Rightarrow> address \<Rightarrow> uint256 \<Rightarrow> rep_op \<Rightarrow> reputation result" where
  "rep_call r sender now RegisterUser = registerUser r sender now"
| "rep_call r sender now (TrackTransaction user amount interactedWith txHash) =
     trackTransaction r sender now user amount interactedWith txHash"
| "rep_call r sender now (TrackBookingCreated buyerAddr bid) =
     trackBookingCreated r sender now buyerAddr bid"
| "rep_call r sender now (TrackBookingAccepted kolAddr bid) =
     trackBookingAccepted r sender now kolAddr bid"
| "rep_call r sender now (TrackBookingCompleted kolAddr buyerAddr bid stars) =
     trackBookingCompleted r sender now kolAddr buyerAddr bid stars"
| "rep_call r sender now (UpdateTokenHoldings user bal) = updateTokenHoldings r sender now user bal"
| "rep_call r sender now (UpdateSocialMetrics user metrics) =
     updateSocialMetrics r sender now user metrics"
| "rep_call r sender now (UpdatePointConfig cfg) = updatePointConfig r sender cfg"
| "rep_call r sender now (SetTimeBookingContract a) = setTimeBookingContract r sender a"
| "rep_call r sender now (SetReputationNFTContract a) = setReputationNFTContract r sender a"
| "rep_call r sender now (BulkUpdateReputations users) = bulkUpdateReputations r sender now users"
| "rep_call r sender now (MintReputationNFT to) =
     on_nft r (bind (mintReputationNFT (nft r) now to) (\<lambda>(tid, n'). Inr n'))"
| "rep_call r sender now (UpdateReputation user onchain social token txs vol cnt avg) =
     on_nft r (updateReputation (nft r) sender now user onchain social token txs vol cnt avg)"
| "rep_call r sender now (SetKOLStatus user flag) = on_nft r (setKOLStatus (nft r) sender user flag)"
| "rep_call r sender now (SetAuthorizedUpdater updater flag) =
     on_nft r (setAuthorizedUpdater (nft r) sender updater flag)"
| "rep_call r sender now (UpdateLevelThresholds b s g d) =
     on_nft r (updateLevelThresholds (nft r) sender b s g d)"

text \<open>A sequence of calls, each with its caller and its time; a call that reverts changes nothing.\<close>

fun rep_run :: "reputation \<Rightarrow> (address \<times> uint256 \<times> rep_op) list \<Rightarrow> reputation" where
  "rep_run r [] = r"
| "rep_run r ((sender, now, call) # calls) = rep_run (after_call r (rep_call r sender now call)) calls"

text \<open>
  Every user with a reputation token is a real account and owns the token recorded for
  it.  \<open>has_kol_flag\<close>: the user has a token and its record carries the KOL flag.
\<close>

definition nft_wf :: "ReputationNFT \<Rightarrow> bool" where
  "nft_wf n = (\<forall>u. userToTokenId n u \<noteq> 0 \<longrightarrow> u \<noteq> 0 \<and> nft_tokenOwner n (userToTokenId n u) = u)"

definition has_kol_flag :: "ReputationNFT \<Rightarrow> address \<Rightarrow> bool" where
  "has_kol_flag n user = (userToTokenId n user \<noteq> 0 \<and> isKOL (reputationData n (userToTokenId n user)))"

definition kol_inv :: "address \<Rightarrow> ReputationNFT \<Rightarrow> bool" where
  "kol_inv user n = (nft_wf n \<and> has_kol_flag n user)"


section \<open>Sequences of escrow operations\<close>

datatype escrow_op =
    AcceptBooking uint256
  | RejectBooking uint256
  | CancelBooking uint256
  | CompleteSession uint256
  | ReportDispute uint256 string
  | RateSession uint256 uint256
  | ReleasePayment uint256
  | HandleExpiredBooking uint256

fun escrow_call :: "world \<Rightarrow> address \<Rightarrow> uint256 \<Rightarrow> escrow_op \<Rightarrow> world result" where
  "escrow_call w sender now (AcceptBooking bid) = acceptBooking w sender now bid"
| "escrow_call w sender now (RejectBooking bid) = rejectBooking w sender now bid"
| "escrow_call w sender now (CancelBooking bid) = cancelBooking w sender now bid"
| "escrow_call w sender now (CompleteSession bid) = completeSession w sender now bid"
| "escrow_call w sender now (ReportDispute bid rsn) = reportDispute w sender now bid rsn"
| "escrow_call w sender now (RateSession bid stars) = rateSession w sender now bid stars"
| "escrow_call w sender now (ReleasePayment bid) = releasePayment w sender now bid"
| "escrow_call w sender now (HandleExpiredBooking bid) = handleExpiredBooking w sender now bid"

fun escrow_run :: "world \<Rightarrow> (address \<times> uint256 \<times> escrow_op) list \<Rightarrow> world" where
  "escrow_run w [] = w"
| "escrow_run w ((sender, now, call) # calls) =
     escrow_run (after_call w (escrow_call w sender now call)) calls"

text \<open>The transfers made for a booking so far: recipient and amount, oldest first.\<close>

definition paid_for :: "world \<Rightarrow> uint256 \<Rightarrow> (address \<times> nat) list" where
  "paid_for w bid = map snd (filter (\<lambda>p. fst p = Some bid) (sent (tb w)))"

text \<open>
  What holds of a booking, pending in \<open>w0\<close>, in every later state \<open>w\<close>: its parties and
  amount, the fee settings, and the transfers made for it since \<open>w0\<close>, by status.
\<close>

definition escrow_inv :: "world \<Rightarrow> uint256 \<Rightarrow> world \<Rightarrow> bool" where
  "escrow_inv w0 bid w =
     (let b0 = bookings (tb w0) bid; b = bookings (tb w) bid;
          amt = unat (totalAmount b0);
          fee = amt * unat (platformFeePercent (tb w0)) div 10000;
          refund = [(buyer b0, amt)];
          split = (if fee > 0 then [(feeRecipient (tb w0), fee)] else []) @ [(kol b0, amt - fee)]
      in feeRecipient (tb w) = feeRecipient (tb w0)
       \<and> platformFeePercent (tb w) = platformFeePercent (tb w0)
       \<and> buyer b = buyer b0 \<and> kol b = kol b0 \<and> totalAmount b = totalAmount b0
       \<and> (case status b of
             Pending \<Rightarrow> paid_for w bid = paid_for w0 bid
           | Accepted \<Rightarrow> paid_for w bid = paid_for w0 bid
           | Disputed \<Rightarrow> paid_for w bid = paid_for w0 bid
           | Rejected \<Rightarrow> paid_for w bid = paid_for w0 bid @ refund
           | Cancelled \<Rightarrow> paid_for w bid = paid_for w0 bid @ refund
           | Expired \<Rightarrow> paid_for w bid = paid_for w0 bid @ refund
           | Completed \<Rightarrow> paid_for w bid = paid_for w0 bid @ split \<and> fee \<le> amt))"


section \<open>A deployment used for the concrete checks\<close>

text \<open>
  Account 1 deploys the three contracts at the addresses 10, 11 and 12, with account 2
  as fee recipient; every account accepts ether.  Account 3 books account 4 for two slots at 500 each, paying 1000, at
  time 1000 for the hour from 4600 to 8200.
\<close>

definition demo0 :: world where
  "demo0 = deploy 1 2 10 11 12 (\<lambda>_. True)"

definition demo_pending :: world where
  "demo_pending =
     after_call demo0 (createBooking demo0 3 1000 1000 4 500 2 4600 8200 ''call'' ''ipfs'')"

text \<open>Account 4 accepts at time 2000 and marks the session as ended at time 9000.\<close>

definition demo_accepted :: world where
  "demo_accepted = after_call demo_pending (acceptBooking demo_pending 4 2000 1)"

definition demo_ended :: world where
  "demo_ended = after_call demo_accepted (completeSession demo_accepted 4 9000 1)"

text \<open>The owner then withdraws the balance.\<close>

definition demo_drained :: world where
  "demo_drained = after_call demo_ended (emergencyWithdraw demo_ended 1)"

text \<open>Or the owner withdraws while the booking is still pending.\<close>

definition demo_pending_drained :: world where
  "demo_pending_drained = after_call demo_pending (emergencyWithdraw demo_pending 1)"

text \<open>
  The same deployment and the same booking, but made by account 20, a contract that
  does not accept ether (it has no payable receive function).
\<close>

definition locked0 :: world where
  "locked0 = deploy 20 2 10 11 12 (\<lambda>a. a \<noteq> 20)"

definition locked_pending :: world where
  "locked_pending =
     after_call locked0 (createBooking locked0 3 1000 1000 4 500 2 4600 8200 ''call'' ''ipfs'')"

text \<open>
  On the reputation side the owner authorises the tracker to update the token, account 3
  registers at time 500 and connects two social accounts at time 600: 20000 followers
  and 5000 engagements on X, 100 contributions on GitHub.
\<close>

definition rep_authorized :: reputation where
  "rep_authorized =
     (rep demo0)\<lparr>nft := after_call (nft (rep demo0))
                           (setAuthorizedUpdater (nft (rep demo0)) 1 11 True)\<rparr>"

definition rep_registered :: reputation where
  "rep_registered = after_call rep_authorized (registerUser rep_authorized 3 500)"

definition rep_social :: reputation where
  "rep_social =
     after_call rep_registered
       (updateSocialMetrics rep_registered 3 600 3
          \<lparr>xFollowers = 20000, xEngagement = 5000, discordActivity = 0,
           githubContributions = 100, xConnected = True, discordConnected = False,
           githubConnected = True\<rparr>)"

text \<open>TimeBooking, at address 10, reports that account 3 accepted booking 1.\<close>

definition rep_kol :: reputation where
  "rep_kol = after_call rep_registered (rep_call rep_registered 10 2000 (TrackBookingAccepted 3 1))"

text \<open>
  The calls made on the pending booking of the deployment above: accepted and ended by
  the KOL, rated by the buyer, released after the dispute period, then attempts to
  release, cancel and expire it again.
\<close>

definition demo_calls :: "(address \<times> uint256 \<times> escrow_op) list" where
  "demo_calls =
     [(4, 2000, AcceptBooking 1), (4, 9000, CompleteSession 1), (3, 9500, RateSession 1 40),
      (5, 95401, ReleasePayment 1), (5, 95500, ReleasePayment 1), (3, 95600, CancelBooking 1),
      (5, 500000, HandleExpiredBooking 1)]"

section \<open>Properties\<close>

subsection \<open>Basic facts\<close>

lemma isl_bind: "isl (bind r f) = (isl r \<or> (\<exists>v. r = Inr v \<and> isl (f v)))"
  by (cases r) (simp_all add: bind_def)

lemma canReceive_tb: "canReceive (w\<lparr>tb := t\<rparr>) a = canReceive w a"
  by (simp add: canReceive_def)

lemma tracker_at_tb: "tracker_at w f = Inr w' \<Longrightarrow> tb w' = tb w \<and> tbAddr w' = tbAddr w"
  by (auto simp: tracker_at_def bind_def split: if_splits sum.splits)

lemma tracker_at_accepts:
  assumes "tracker_accepts w f" "reputationTracker (tb w1) = reputationTracker (tb w)"
    "rep w1 = rep w" "tbAddr w1 = tbAddr w"
  shows "\<exists>r'. tracker_at w1 f = Inr (w1\<lparr>rep := r'\<rparr>)"
proof (cases "reputationTracker (tb w) = 0")
  case True
  then have "tracker_at w1 f = Inr w1" using assms by (simp add: tracker_at_def)
  moreover have "w1 = w1\<lparr>rep := rep w1\<rparr>" by simp
  ultimately show ?thesis by metis
next
  case False
  with assms(1) have a: "reputationTracker (tb w) = rtAddr (rep w)" and b: "\<not> isl (f (rep w) (tbAddr w))"
    by (auto simp: tracker_accepts_def)
  from b obtain r' where "f (rep w) (tbAddr w) = Inr r'" by (cases "f (rep w) (tbAddr w)") auto
  then have "tracker_at w1 f = Inr (w1\<lparr>rep := r'\<rparr>)"
    using False a assms by (simp add: tracker_at_def bind_def)
  then show ?thesis by blast
qed

lemma unat_lt_256: "unat (x :: uint256) < 2 ^ 256"
proof -
  have "unat x < 2 ^ LENGTH(256)" by (rule unsigned_less)
  then show ?thesis by simp
qed

lemma checked_add_Inr: "unat a + unat b < 2 ^ 256 \<Longrightarrow> checked_add a b = Inr (a + b) \<and> unat (a + b) = unat a + unat b"
  by (simp add: checked_add_def unat_add_lem [THEN iffD1])

lemma checked_mul_Inr: "unat a * unat b < 2 ^ 256 \<Longrightarrow> checked_mul a b = Inr (a * b) \<and> unat (a * b) = unat a * unat b"
  by (simp add: checked_mul_def unat_mult_lem [THEN iffD1])

lemma checked_sub_Inr: "unat b \<le> unat a \<Longrightarrow> checked_sub a b = Inr (a - b) \<and> unat (a - b) = unat a - unat b"
  by (simp add: checked_sub_def unat_sub word_le_nat_alt)

lemma fee_le: "p \<le> 10000 \<Longrightarrow> (t::nat) * p div 10000 \<le> t"
proof -
  assume "p \<le> 10000"
  then have "t * p \<le> t * 10000" by simp
  then have "t * p div 10000 \<le> t * 10000 div 10000" by (rule div_le_mono)
  then show ?thesis by simp
qed

lemma release_core:
  fixes w :: world and bid now sender and b :: Booking and amt fee :: nat
  defines "b \<equiv> bookings (tb w) bid"
  defines "amt \<equiv> unat (totalAmount b)"
  defines "fee \<equiv> amt * unat (platformFeePercent (tb w)) div 10000"
  assumes st: "status b = Accepted"
    and ended: "sessionEndTime b > 0"
    and nodispute: "\<not> disputeReported b"
    and late: "unat now > unat (sessionEndTime b) + unat DISPUTE_PERIOD"
    and funded: "amt \<le> balance (tb w)"
    and fits: "amt * unat (platformFeePercent (tb w)) < 2 ^ 256"
    and pct: "unat (platformFeePercent (tb w)) \<le> 10000"
    and payk: "canReceive w (kol b)"
    and payf: "fee > 0 \<longrightarrow> canReceive w (feeRecipient (tb w))"
    and tracker: "tracker_accepts w (\<lambda>r me. trackBookingCompleted r me now (kol b) (buyer b) bid
                    (if ratingSubmitted b then rating b else 25))"
  shows "\<exists>r'. releasePayment w sender now bid =
     Inr (w\<lparr>tb := (tb w)\<lparr>bookings := (bookings (tb w))(bid := b\<lparr>status := Completed, updatedAt := now\<rparr>),
                        balance := balance (tb w) - amt,
                        sent := sent (tb w) @ (if fee > 0 then [(Some bid, feeRecipient (tb w), fee)] else [])
                                  @ [(Some bid, kol b, amt - fee)]\<rparr>,
           rep := r'\<rparr>)"
proof -
  have "unat (sessionEndTime b) + unat DISPUTE_PERIOD < 2 ^ 256"
    using late unat_lt_256 [of now] by simp
  from checked_add_Inr [OF this]
  have dl: "checked_add (sessionEndTime b) DISPUTE_PERIOD = Inr (sessionEndTime b + DISPUTE_PERIOD)"
    and dlu: "unat (sessionEndTime b + DISPUTE_PERIOD) = unat (sessionEndTime b) + unat DISPUTE_PERIOD"
    by simp_all
  have gt: "now > sessionEndTime b + DISPUTE_PERIOD"
    using late dlu by (simp add: word_less_nat_alt)
  from checked_mul_Inr [OF fits [unfolded amt_def]]
  have mul: "checked_mul (totalAmount b) (platformFeePercent (tb w))
               = Inr (totalAmount b * platformFeePercent (tb w))"
    and mulu: "unat (totalAmount b * platformFeePercent (tb w)) = amt * unat (platformFeePercent (tb w))"
    by (simp_all add: amt_def)
  define pf where "pf = totalAmount b * platformFeePercent (tb w) div 10000"
  have pfu: "unat pf = fee"
    by (simp add: pf_def fee_def unat_div mulu)
  have feele: "fee \<le> amt" unfolding fee_def using pct by (rule fee_le)
  then have "unat pf \<le> unat (totalAmount b)" by (simp add: pfu amt_def)
  from checked_sub_Inr [OF this]
  have sub: "checked_sub (totalAmount b) pf = Inr (totalAmount b - pf)"
    and subu: "unat (totalAmount b - pf) = amt - fee"
    by (simp_all add: pfu amt_def)
  have pos: "(pf > 0) = (fee > 0)"
    by (simp add: word_less_nat_alt pfu)
  let ?t3 = "(tb w)\<lparr>bookings := (bookings (tb w))(bid := b\<lparr>status := Completed, updatedAt := now\<rparr>),
                        balance := balance (tb w) - amt,
                        sent := sent (tb w) @ (if fee > 0 then [(Some bid, feeRecipient (tb w), fee)] else [])
                                  @ [(Some bid, kol b, amt - fee)]\<rparr>"
  let ?f = "\<lambda>r me. trackBookingCompleted r me now (kol b) (buyer b) bid
                    (if ratingSubmitted b then rating b else 25)"
  have "\<exists>r'. tracker_at (w\<lparr>tb := ?t3\<rparr>) ?f = Inr (w\<lparr>tb := ?t3\<rparr>\<lparr>rep := r'\<rparr>)"
    by (rule tracker_at_accepts [OF tracker]) simp_all
  then obtain r' where tr: "tracker_at (w\<lparr>tb := ?t3\<rparr>) ?f = Inr (w\<lparr>tb := ?t3, rep := r'\<rparr>)"
    by auto
  have ar1: "amt - fee \<le> balance (tb w) - fee" using funded by (rule diff_le_mono)
  have ar2: "balance (tb w) - fee - (amt - fee) = balance (tb w) - amt"
    using funded feele by simp
  have ar3: "fee \<le> balance (tb w)" using funded feele by simp
  have "releasePayment w sender now bid = tracker_at (w\<lparr>tb := ?t3\<rparr>) ?f"
    using st ended nodispute gt ar1 ar2 ar3 funded payk payf
    by (simp add: releasePayment_def Let_def b_def [symmetric] dl mul pf_def [symmetric] sub
        bind_def pos transfer_def setBooking_def pfu subu canReceive_tb)
  with tr show ?thesis by auto
qed

lemma demo_pending_facts:
  "tb_owner (tb demo_pending) = 1 \<and> balance (tb demo_pending) = 1000
   \<and> status (bookings (tb demo_pending) 1) = Pending
   \<and> totalAmount (bookings (tb demo_pending) 1) = 1000
   \<and> buyer (bookings (tb demo_pending) 1) = 3
   \<and> kol (bookings (tb demo_pending) 1) = 4
   \<and> createdAt (bookings (tb demo_pending) 1) = 1000
   \<and> sent (tb demo_pending) = []
   \<and> canReceive demo_pending 1 \<and> canReceive demo_pending 3"
  by (simp add: demo_pending_def demo0_def deploy_def tb_constructor_def createBooking_def
      after_call_def bind_def checked_mul_def MIN_SLOT_DURATION_def increment_def tracker_at_def
      canReceive_def Let_def)

lemma locked_pending_facts:
  "tb_owner (tb locked_pending) = 20 \<and> balance (tb locked_pending) = 1000
   \<and> status (bookings (tb locked_pending) 1) = Pending
   \<and> totalAmount (bookings (tb locked_pending) 1) = 1000
   \<and> \<not> canReceive locked_pending 20"
  by (simp add: locked_pending_def locked0_def deploy_def tb_constructor_def createBooking_def
      after_call_def bind_def checked_mul_def MIN_SLOT_DURATION_def increment_def tracker_at_def
      canReceive_def Let_def)

lemmas demo_defs = demo_drained_def demo_pending_drained_def demo_ended_def demo_accepted_def
  demo_pending_def demo0_def deploy_def tb_constructor_def
  createBooking_def acceptBooking_def completeSession_def emergencyWithdraw_def tb_onlyOwner_def
  transfer_def canReceive_def after_call_def bind_def notExpired_def checked_add_def
  checked_mul_def EXPIRY_PERIOD_def MIN_SLOT_DURATION_def increment_def tracker_at_def
  setBooking_def Let_def

lemma demo_ended_facts:
  "status (bookings (tb demo_ended) 1) = Accepted
   \<and> sessionEndTime (bookings (tb demo_ended) 1) = 9000
   \<and> \<not> disputeReported (bookings (tb demo_ended) 1)
   \<and> \<not> ratingSubmitted (bookings (tb demo_ended) 1)
   \<and> totalAmount (bookings (tb demo_ended) 1) = 1000
   \<and> buyer (bookings (tb demo_ended) 1) = 3
   \<and> kol (bookings (tb demo_ended) 1) = 4
   \<and> toTime (bookings (tb demo_ended) 1) = 8200
   \<and> balance (tb demo_ended) = 1000
   \<and> sent (tb demo_ended) = []
   \<and> platformFeePercent (tb demo_ended) = 250
   \<and> feeRecipient (tb demo_ended) = 2
   \<and> reputationTracker (tb demo_ended) = 0
   \<and> canReceive demo_ended 2 \<and> canReceive demo_ended 4"
  by (simp add: demo_defs)

lemma demo_drained_facts:
  "status (bookings (tb demo_drained) 1) = Accepted
   \<and> sessionEndTime (bookings (tb demo_drained) 1) = 9000
   \<and> \<not> disputeReported (bookings (tb demo_drained) 1)
   \<and> totalAmount (bookings (tb demo_drained) 1) = 1000
   \<and> balance (tb demo_drained) = 0
   \<and> platformFeePercent (tb demo_drained) = 250
   \<and> feeRecipient (tb demo_drained) = 2
   \<and> reputationTracker (tb demo_drained) = 0"
  by (simp add: demo_defs)

lemma demo_pending_drained_facts:
  "status (bookings (tb demo_pending_drained) 1) = Pending
   \<and> createdAt (bookings (tb demo_pending_drained) 1) = 1000
   \<and> totalAmount (bookings (tb demo_pending_drained) 1) = 1000
   \<and> balance (tb demo_pending_drained) = 0"
  by (simp add: demo_defs)

subsection \<open>Booking creation\<close>

text \<open>
  C5.  A \<open>createBooking\<close> call whose payment differs from \<open>pricePerSlot \<times> totalSlots\<close>
  fails and leaves the whole state as it was: no booking, no ticket, nothing escrowed,
  no entry in either party's list.  When the earlier checks pass and the product fits in
  256 bits, the failure is the one of the payment check, \<open>Incorrect payment amount\<close>;
  otherwise it is the failure of an earlier check of the arguments, or the overflow of
  one of the two products.
\<close>

theorem createBooking_wrong_payment:
  assumes "unat paid \<noteq> unat price * unat slots"
  shows "isl (createBooking w sender paid now kolAddr price slots from to rsn uri)
     \<and> after_call w (createBooking w sender paid now kolAddr price slots from to rsn uri) = w
     \<and> (kolAddr \<noteq> 0 \<and> kolAddr \<noteq> sender \<and> slots > 0 \<and> from > now \<and> to > from
          \<and> unat MIN_SLOT_DURATION * unat slots \<le> unat (to - from)
          \<and> unat price * unat slots < 2 ^ 256
        \<longrightarrow> createBooking w sender paid now kolAddr price slots from to rsn uri
              = Inl (Revert ''Incorrect payment amount''))"
proof -
  have neq: "unat price * unat slots < 2 ^ 256 \<Longrightarrow> paid \<noteq> price * slots"
    using assms by (auto simp: unat_mult_lem [THEN iffD1])
  have fails: "isl (createBooking w sender paid now kolAddr price slots from to rsn uri)"
    using neq by (simp add: createBooking_def isl_bind checked_mul_def Let_def)
  have exact: "kolAddr \<noteq> 0 \<and> kolAddr \<noteq> sender \<and> slots > 0 \<and> from > now \<and> to > from
          \<and> unat MIN_SLOT_DURATION * unat slots \<le> unat (to - from)
          \<and> unat price * unat slots < 2 ^ 256
        \<longrightarrow> createBooking w sender paid now kolAddr price slots from to rsn uri
              = Inl (Revert ''Incorrect payment amount'')"
    using neq
    by (auto simp: createBooking_def bind_def checked_mul_def Let_def word_le_nat_alt
        unat_mult_lem [THEN iffD1] dest: order_le_less_trans [OF _ unsigned_less])
  from fails exact show ?thesis
    by (cases "createBooking w sender paid now kolAddr price slots from to rsn uri")
       (simp_all add: after_call_def)
qed

theorem createBooking_wrong_payment_witness:
  "unat (199 :: uint256) \<noteq> unat (100 :: uint256) * unat (2 :: uint256)
   \<and> createBooking demo0 3 199 1000 4 100 2 4600 8200 ''call'' ''ipfs''
       = Inl (Revert ''Incorrect payment amount'')
   \<and> after_call demo0 (createBooking demo0 3 199 1000 4 100 2 4600 8200 ''call'' ''ipfs'') = demo0"
  using createBooking_wrong_payment [of 199 100 2 demo0 3 1000 4 4600 8200 "''call''" "''ipfs''"]
  by (simp add: MIN_SLOT_DURATION_def after_call_def)

subsection \<open>The owner's withdrawal\<close>

text \<open>
  C10, as stated, fails: the owner's call does not go through in every state.  When the
  owner is a contract that does not accept ether (here account 20, which deployed the
  system), \<open>emergencyWithdraw\<close> called by the owner reverts in its transfer and the
  balance stays where it is.
\<close>

theorem emergencyWithdraw_contract_owner_counterexample:
  "tb_owner (tb locked_pending) = 20
   \<and> balance (tb locked_pending) = 1000
   \<and> emergencyWithdraw locked_pending 20 = Inl (Revert [])
   \<and> balance (tb (after_call locked_pending (emergencyWithdraw locked_pending 20))) = 1000"
  using locked_pending_facts
  by (simp add: emergencyWithdraw_def tb_onlyOwner_def transfer_def bind_def after_call_def)

text \<open>
  C10, amended.  \<open>emergencyWithdraw\<close> has one \<open>require\<close>, that the caller is the owner,
  and nothing in it looks at the bookings.  Called by the owner, when the owner is an
  account that can receive ether, it sends the whole balance of the contract to the
  owner, the escrow of every open booking included, and changes nothing else: every
  booking record stays as it was.  Called by an owner that cannot receive ether it
  reverts in the transfer, and called by anyone else it fails the \<open>require\<close>; in both
  cases nothing changes.
\<close>

theorem emergencyWithdraw_drains_escrow:
  "(sender = tb_owner (tb w) \<and> canReceive w (tb_owner (tb w)) \<longrightarrow>
      emergencyWithdraw w sender =
        Inr (w\<lparr>tb := (tb w)\<lparr>balance := 0,
               sent := sent (tb w) @ [(None, tb_owner (tb w), balance (tb w))]\<rparr>\<rparr>))
   \<and> (sender = tb_owner (tb w) \<and> \<not> canReceive w (tb_owner (tb w)) \<longrightarrow>
      emergencyWithdraw w sender = Inl (Revert []))
   \<and> (sender \<noteq> tb_owner (tb w) \<longrightarrow>
      emergencyWithdraw w sender = Inl (Revert ''Ownable: caller is not the owner''))
   \<and> bookings (tb (after_call w (emergencyWithdraw w sender))) = bookings (tb w)"
  by (simp add: emergencyWithdraw_def tb_onlyOwner_def transfer_def bind_def after_call_def)

theorem emergencyWithdraw_drains_escrow_witness:
  "status (bookings (tb demo_pending) 1) = Pending
   \<and> totalAmount (bookings (tb demo_pending) 1) = 1000
   \<and> canReceive demo_pending 1
   \<and> (\<exists>w'. emergencyWithdraw demo_pending 1 = Inr w'
         \<and> balance (tb w') = 0
         \<and> sent (tb w') = [(None, 1, 1000)]
         \<and> status (bookings (tb w') 1) = Pending
         \<and> totalAmount (bookings (tb w') 1) = 1000)"
  using emergencyWithdraw_drains_escrow [of 1 demo_pending] demo_pending_facts
  by simp

subsection \<open>Ending the session\<close>

text \<open>
  C6.  \<open>completeSession\<close> records the end of the session and leaves the booking
  accepted, but it does not look at \<open>sessionEndTime\<close>: on the accepted booking whose
  session the KOL ended at time 9000, a second call by the KOL at time 50000 is not
  rejected, it succeeds and moves \<open>sessionEndTime\<close> to 50000.
\<close>

theorem completeSession_again_overwrites:
  "status (bookings (tb demo_ended) 1) = Accepted
   \<and> sessionEndTime (bookings (tb demo_ended) 1) = 9000
   \<and> completeSession demo_ended 4 50000 1
       = Inr (setBooking demo_ended 1
               ((bookings (tb demo_ended) 1)\<lparr>sessionEndTime := 50000, updatedAt := 50000\<rparr>))"
  using demo_ended_facts by (simp add: completeSession_def)

subsection \<open>Releasing the payment\<close>

text \<open>
  C2, as stated, fails: after the owner has withdrawn the balance the booking is still
  accepted, its session has ended, no dispute was reported and the dispute period is
  over, yet \<open>releasePayment\<close> reverts, because the contract cannot pay.
\<close>

theorem releasePayment_after_withdrawal_counterexample:
  "status (bookings (tb demo_drained) 1) = Accepted
   \<and> sessionEndTime (bookings (tb demo_drained) 1) = 9000
   \<and> \<not> disputeReported (bookings (tb demo_drained) 1)
   \<and> unat (95401 :: uint256) > unat (9000 :: uint256) + unat DISPUTE_PERIOD
   \<and> releasePayment demo_drained 5 95401 1 = Inl (Revert [])"
  using demo_drained_facts
  by (simp add: releasePayment_def DISPUTE_PERIOD_def checked_add_def checked_mul_def
      checked_sub_def bind_def transfer_def setBooking_def Let_def)

text \<open>
  C2, amended.  For a booking in status Accepted with \<open>sessionEndTime\<close> set, no dispute
  reported and the current time strictly after \<open>sessionEndTime + DISPUTE_PERIOD\<close>,
  \<open>releasePayment\<close> succeeds provided that the contract still holds \<open>totalAmount\<close>, that
  the KOL, and the fee recipient when the fee is positive, can receive ether, that
  \<open>totalAmount \<times> platformFeePercent\<close> fits in 256 bits with \<open>platformFeePercent\<close> at most
  10000, and that the notification of the reputation tracker, if one is set, does not
  revert.  It then marks the booking Completed and pays
  \<open>fee = totalAmount \<times> platformFeePercent div 10000\<close> to the fee recipient (no
  transfer when the fee is 0) and \<open>totalAmount - fee\<close> to the KOL, which add up to
  \<open>totalAmount\<close>.  For 1000 and 250 the fee is 25 and the KOL receives 975.
\<close>

theorem releasePayment_splits:
  fixes w :: world and bid now sender and b :: Booking and amt fee :: nat
  defines "b \<equiv> bookings (tb w) bid"
  defines "amt \<equiv> unat (totalAmount b)"
  defines "fee \<equiv> amt * unat (platformFeePercent (tb w)) div 10000"
  assumes "status b = Accepted"
    and "sessionEndTime b > 0"
    and "\<not> disputeReported b"
    and "unat now > unat (sessionEndTime b) + unat DISPUTE_PERIOD"
    and "amt \<le> balance (tb w)"
    and "amt * unat (platformFeePercent (tb w)) < 2 ^ 256"
    and "unat (platformFeePercent (tb w)) \<le> 10000"
    and "canReceive w (kol b)"
    and "fee > 0 \<longrightarrow> canReceive w (feeRecipient (tb w))"
    and "tracker_accepts w (\<lambda>r me. trackBookingCompleted r me now (kol b) (buyer b) bid
                    (if ratingSubmitted b then rating b else 25))"
  shows "\<exists>w'. releasePayment w sender now bid = Inr w'
     \<and> status (bookings (tb w') bid) = Completed
     \<and> sent (tb w') = sent (tb w) @ (if fee > 0 then [(Some bid, feeRecipient (tb w), fee)] else [])
                         @ [(Some bid, kol b, amt - fee)]
     \<and> balance (tb w') = balance (tb w) - amt
     \<and> fee + (amt - fee) = amt"
proof -
  have "fee \<le> amt" unfolding fee_def using assms(10) by (rule fee_le)
  moreover from release_core [of w bid now sender] assms(4-13)
  obtain r' where "releasePayment w sender now bid =
     Inr (w\<lparr>tb := (tb w)\<lparr>bookings := (bookings (tb w))(bid := b\<lparr>status := Completed, updatedAt := now\<rparr>),
                        balance := balance (tb w) - amt,
                        sent := sent (tb w) @ (if fee > 0 then [(Some bid, feeRecipient (tb w), fee)] else [])
                                  @ [(Some bid, kol b, amt - fee)]\<rparr>,
           rep := r'\<rparr>)"
    unfolding b_def amt_def fee_def by blast
  ultimately show ?thesis by simp
qed

theorem releasePayment_splits_witness:
  "status (bookings (tb demo_ended) 1) = Accepted
   \<and> totalAmount (bookings (tb demo_ended) 1) = 1000
   \<and> platformFeePercent (tb demo_ended) = 250
   \<and> canReceive demo_ended 2 \<and> canReceive demo_ended 4
   \<and> (\<exists>w'. releasePayment demo_ended 5 95401 1 = Inr w'
        \<and> status (bookings (tb w') 1) = Completed
        \<and> sent (tb w') = [(Some 1, 2, 25), (Some 1, 4, 975)]
        \<and> balance (tb w') = 0)"
  using releasePayment_splits [of demo_ended 1 95401 5] demo_ended_facts
  by (simp add: tracker_accepts_def DISPUTE_PERIOD_def)

lemma isl_after_call: "isl r \<Longrightarrow> after_call w r = w"
  by (cases r) (simp_all add: after_call_def)

lemma checked_add_Inl: "\<not> unat a + unat b < 2 ^ 256 \<Longrightarrow> checked_add a b = Inl Panic"
  by (simp add: checked_add_def)

lemma release_not_accepted:
  "status (bookings (tb w) bid) \<noteq> Accepted
   \<Longrightarrow> releasePayment w sender now bid = Inl (Revert ''Cannot release payment'')"
  by (simp add: releasePayment_def Let_def)

lemma release_early:
  assumes "unat now \<le> unat (sessionEndTime (bookings (tb w) bid)) + unat DISPUTE_PERIOD"
  shows "isl (releasePayment w sender now bid)"
proof (cases "unat (sessionEndTime (bookings (tb w) bid)) + unat DISPUTE_PERIOD < 2 ^ 256")
  case True
  from checked_add_Inr [OF True] assms
  have "checked_add (sessionEndTime (bookings (tb w) bid)) DISPUTE_PERIOD
          = Inr (sessionEndTime (bookings (tb w) bid) + DISPUTE_PERIOD)"
    and "\<not> now > sessionEndTime (bookings (tb w) bid) + DISPUTE_PERIOD"
    by (simp_all add: word_less_nat_alt)
  then show ?thesis by (simp add: releasePayment_def Let_def bind_def)
next
  case False
  from checked_add_Inl [OF False] show ?thesis
    by (simp add: releasePayment_def Let_def bind_def)
qed

text \<open>
  C3, as stated, fails in its second half: on the accepted booking whose escrow the
  owner has withdrawn, the dispute period is over and no dispute was reported, yet
  \<open>releasePayment\<close> does not succeed.
\<close>

theorem releasePayment_once_counterexample:
  "status (bookings (tb demo_drained) 1) = Accepted
   \<and> sessionEndTime (bookings (tb demo_drained) 1) > 0
   \<and> \<not> disputeReported (bookings (tb demo_drained) 1)
   \<and> unat (200000 :: uint256)
        > unat (sessionEndTime (bookings (tb demo_drained) 1)) + unat DISPUTE_PERIOD
   \<and> isl (releasePayment demo_drained 4 200000 1)"
  using demo_drained_facts
  by (simp add: releasePayment_def DISPUTE_PERIOD_def checked_add_def checked_mul_def
      checked_sub_def bind_def transfer_def setBooking_def Let_def)

text \<open>
  C3, amended.  For a booking in status Accepted with \<open>sessionEndTime\<close> set: while the
  current time is at most \<open>sessionEndTime + DISPUTE_PERIOD\<close>, \<open>releasePayment\<close> fails
  and the state is unchanged.  Once the time is strictly later and no dispute was
  reported, \<open>releasePayment\<close> succeeds, provided that the contract still holds
  \<open>totalAmount\<close>, that the KOL, and the fee recipient when the fee is positive, can
  receive ether, that the fee computation does not overflow
  (\<open>totalAmount \<times> platformFeePercent\<close> below \<open>2^256\<close>, \<open>platformFeePercent\<close> at most
  10000) and that the tracker notification, if a tracker is set, does not revert; the
  booking is then Completed, and every further \<open>releasePayment\<close> on it, by any caller
  at any time, fails and changes nothing, so there is no second transfer.
\<close>

theorem releasePayment_once:
  fixes w :: world and bid now sender and b :: Booking and amt :: nat
  defines "b \<equiv> bookings (tb w) bid"
  defines "amt \<equiv> unat (totalAmount b)"
  assumes "status b = Accepted" and "sessionEndTime b > 0"
  shows "(unat now \<le> unat (sessionEndTime b) + unat DISPUTE_PERIOD \<longrightarrow>
            isl (releasePayment w sender now bid)
            \<and> after_call w (releasePayment w sender now bid) = w)
     \<and> (unat now > unat (sessionEndTime b) + unat DISPUTE_PERIOD
          \<and> \<not> disputeReported b
          \<and> amt \<le> balance (tb w)
          \<and> amt * unat (platformFeePercent (tb w)) < 2 ^ 256
          \<and> unat (platformFeePercent (tb w)) \<le> 10000
          \<and> canReceive w (kol b)
          \<and> (amt * unat (platformFeePercent (tb w)) div 10000 > 0
                \<longrightarrow> canReceive w (feeRecipient (tb w)))
          \<and> tracker_accepts w (\<lambda>r me. trackBookingCompleted r me now (kol b) (buyer b) bid
                    (if ratingSubmitted b then rating b else 25)) \<longrightarrow>
            (\<exists>w'. releasePayment w sender now bid = Inr w'
               \<and> status (bookings (tb w') bid) = Completed
               \<and> (\<forall>sender' now'. isl (releasePayment w' sender' now' bid)
                     \<and> after_call w' (releasePayment w' sender' now' bid) = w')))"
proof (intro conjI impI)
  assume "unat now \<le> unat (sessionEndTime b) + unat DISPUTE_PERIOD"
  then show e: "isl (releasePayment w sender now bid)"
    unfolding b_def by (rule release_early)
  then show "after_call w (releasePayment w sender now bid) = w" by (rule isl_after_call)
next
  assume h: "unat now > unat (sessionEndTime b) + unat DISPUTE_PERIOD
          \<and> \<not> disputeReported b
          \<and> amt \<le> balance (tb w)
          \<and> amt * unat (platformFeePercent (tb w)) < 2 ^ 256
          \<and> unat (platformFeePercent (tb w)) \<le> 10000
          \<and> canReceive w (kol b)
          \<and> (amt * unat (platformFeePercent (tb w)) div 10000 > 0
                \<longrightarrow> canReceive w (feeRecipient (tb w)))
          \<and> tracker_accepts w (\<lambda>r me. trackBookingCompleted r me now (kol b) (buyer b) bid
                    (if ratingSubmitted b then rating b else 25))"
  from release_core [of w bid now sender] assms(3,4) h
  obtain w' where r: "releasePayment w sender now bid = Inr w'"
    and c: "status (bookings (tb w') bid) = Completed"
    unfolding b_def amt_def by fastforce
  have "isl (releasePayment w' sender' now' bid)
          \<and> after_call w' (releasePayment w' sender' now' bid) = w'" for sender' now'
    using release_not_accepted [of w' bid sender' now'] c by (simp add: after_call_def)
  with r c show "\<exists>w'. releasePayment w sender now bid = Inr w'
               \<and> status (bookings (tb w') bid) = Completed
               \<and> (\<forall>sender' now'. isl (releasePayment w' sender' now' bid)
                     \<and> after_call w' (releasePayment w' sender' now' bid) = w')"
    by blast
qed

theorem releasePayment_once_witness:
  "status (bookings (tb demo_ended) 1) = Accepted
   \<and> sessionEndTime (bookings (tb demo_ended) 1) > 0
   \<and> isl (releasePayment demo_ended 5 95400 1)
   \<and> (\<exists>w'. releasePayment demo_ended 5 95401 1 = Inr w'
         \<and> status (bookings (tb w') 1) = Completed
         \<and> isl (releasePayment w' 5 200000 1)
         \<and> after_call w' (releasePayment w' 5 200000 1) = w')"
  using releasePayment_once [of demo_ended 1 95400 5] releasePayment_once [of demo_ended 1 95401 5]
    demo_ended_facts
  by (simp add: tracker_accepts_def DISPUTE_PERIOD_def) blast


subsection \<open>Expiry\<close>

lemma demo_pending_world_facts:
  "status (bookings (tb demo_pending) 1) = Pending
   \<and> createdAt (bookings (tb demo_pending) 1) = 1000
   \<and> buyer (bookings (tb demo_pending) 1) = 3
   \<and> kol (bookings (tb demo_pending) 1) = 4
   \<and> totalAmount (bookings (tb demo_pending) 1) = 1000
   \<and> balance (tb demo_pending) = 1000
   \<and> sent (tb demo_pending) = []
   \<and> canReceive demo_pending 3"
  using demo_pending_facts by simp

lemma notExpired_late:
  "unat now \<ge> unat (createdAt b) + unat EXPIRY_PERIOD \<Longrightarrow> notExpired b now \<noteq> Inr True"
  by (auto simp: notExpired_def checked_add_def bind_def word_less_nat_alt unat_add_lem [THEN iffD1])

lemma isExpired_late:
  "unat now \<ge> unat (createdAt b) + unat EXPIRY_PERIOD \<Longrightarrow> isExpired b now = Inr True"
proof -
  assume a: "unat now \<ge> unat (createdAt b) + unat EXPIRY_PERIOD"
  then have "unat (createdAt b) + unat EXPIRY_PERIOD < 2 ^ 256"
    using unat_lt_256 [of now] by simp
  from checked_add_Inr [OF this] a show ?thesis
    by (simp add: isExpired_def bind_def word_le_nat_alt)
qed

lemma isExpired_early:
  "unat now < unat (createdAt b) + unat EXPIRY_PERIOD \<Longrightarrow> isExpired b now \<noteq> Inr True"
  by (auto simp: isExpired_def checked_add_def bind_def word_le_nat_alt unat_add_lem [THEN iffD1])

lemma notExpired_early:
  "unat now < unat (createdAt b) + unat EXPIRY_PERIOD
   \<Longrightarrow> unat (createdAt b) + unat EXPIRY_PERIOD < 2 ^ 256 \<Longrightarrow> notExpired b now = Inr True"
  by (auto simp: notExpired_def checked_add_def bind_def word_less_nat_alt unat_add_lem [THEN iffD1])

lemma accept_needs_notExpired:
  "notExpired (bookings (tb w) bid) now \<noteq> Inr True \<Longrightarrow> isl (acceptBooking w sender now bid)"
  by (cases "notExpired (bookings (tb w) bid) now")
     (auto simp: acceptBooking_def Let_def bind_def)

lemma expire_needs_isExpired:
  "isExpired (bookings (tb w) bid) now \<noteq> Inr True \<Longrightarrow> isl (handleExpiredBooking w sender now bid)"
  by (cases "isExpired (bookings (tb w) bid) now")
     (auto simp: handleExpiredBooking_def Let_def bind_def)

text \<open>
  C4, as stated, fails: the pending booking is past its expiry, but after the owner has
  withdrawn the balance \<open>handleExpiredBooking\<close> reverts instead of refunding the buyer.
\<close>

theorem handleExpiredBooking_after_withdrawal_counterexample:
  "status (bookings (tb demo_pending_drained) 1) = Pending
   \<and> unat (433000 :: uint256)
        \<ge> unat (createdAt (bookings (tb demo_pending_drained) 1)) + unat EXPIRY_PERIOD
   \<and> handleExpiredBooking demo_pending_drained 5 433000 1 = Inl (Revert [])"
  using demo_pending_drained_facts
  by (simp add: handleExpiredBooking_def isExpired_def EXPIRY_PERIOD_def checked_add_def
      bind_def transfer_def refundBuyer_def setBooking_def Let_def)

text \<open>
  C4, amended.  For a booking in status Pending: once the current time is at or past
  \<open>createdAt + EXPIRY_PERIOD\<close>, \<open>acceptBooking\<close> fails for every caller, the KOL
  included, with no state change, and \<open>handleExpiredBooking\<close> succeeds provided the
  contract still holds \<open>totalAmount\<close> and the buyer can receive ether: it sets the status
  to Expired and sends exactly \<open>totalAmount\<close> to the buyer.  While the current time is strictly before
  \<open>createdAt + EXPIRY_PERIOD\<close>, \<open>handleExpiredBooking\<close> fails with no state change.
  The two time conditions never hold together, and exactly one of them holds at every
  instant when \<open>createdAt + EXPIRY_PERIOD\<close> fits in 256 bits.
\<close>

theorem expiry_guards:
  fixes w :: world and bid now sender and b :: Booking and amt :: nat
  defines "b \<equiv> bookings (tb w) bid"
  defines "amt \<equiv> unat (totalAmount b)"
  assumes "status b = Pending"
  shows "(unat now \<ge> unat (createdAt b) + unat EXPIRY_PERIOD \<longrightarrow>
            isl (acceptBooking w sender now bid)
            \<and> after_call w (acceptBooking w sender now bid) = w
            \<and> (amt \<le> balance (tb w) \<and> canReceive w (buyer b) \<longrightarrow>
                 handleExpiredBooking w sender now bid =
                   Inr (w\<lparr>tb := (tb w)\<lparr>bookings := (bookings (tb w))
                                    (bid := b\<lparr>status := Expired, updatedAt := now\<rparr>),
                                  balance := balance (tb w) - amt,
                                  sent := sent (tb w) @ [(Some bid, buyer b, amt)]\<rparr>\<rparr>)))
     \<and> (unat now < unat (createdAt b) + unat EXPIRY_PERIOD \<longrightarrow>
            isl (handleExpiredBooking w sender now bid)
            \<and> after_call w (handleExpiredBooking w sender now bid) = w)
     \<and> (unat (createdAt b) + unat EXPIRY_PERIOD < 2 ^ 256 \<longrightarrow>
            (notExpired b now = Inr True) \<noteq> (isExpired b now = Inr True))
     \<and> \<not> (notExpired b now = Inr True \<and> isExpired b now = Inr True)"
proof -
  have late_accept: "isl (acceptBooking w sender now bid)"
    if "unat now \<ge> unat (createdAt b) + unat EXPIRY_PERIOD"
    using notExpired_late [OF that] unfolding b_def by (rule accept_needs_notExpired)
  have late_expire: "handleExpiredBooking w sender now bid =
                   Inr (w\<lparr>tb := (tb w)\<lparr>bookings := (bookings (tb w))
                                    (bid := b\<lparr>status := Expired, updatedAt := now\<rparr>),
                                  balance := balance (tb w) - amt,
                                  sent := sent (tb w) @ [(Some bid, buyer b, amt)]\<rparr>\<rparr>)"
    if "unat now \<ge> unat (createdAt b) + unat EXPIRY_PERIOD" and "amt \<le> balance (tb w)"
      and "canReceive w (buyer b)"
    using isExpired_late [OF that(1)] that(2,3) assms(3)
    by (simp add: handleExpiredBooking_def Let_def b_def [symmetric] amt_def [symmetric]
        bind_def refundBuyer_def transfer_def setBooking_def canReceive_tb)
  have early_expire: "isl (handleExpiredBooking w sender now bid)"
    if "unat now < unat (createdAt b) + unat EXPIRY_PERIOD"
    using isExpired_early [OF that] unfolding b_def by (rule expire_needs_isExpired)
  have compl: "(notExpired b now = Inr True) \<noteq> (isExpired b now = Inr True)"
    if "unat (createdAt b) + unat EXPIRY_PERIOD < 2 ^ 256"
  proof (cases "unat now < unat (createdAt b) + unat EXPIRY_PERIOD")
    case True
    from notExpired_early [OF True that] isExpired_early [OF True] show ?thesis by simp
  next
    case False
    then have "unat now \<ge> unat (createdAt b) + unat EXPIRY_PERIOD" by simp
    from notExpired_late [OF this] isExpired_late [OF this] show ?thesis by simp
  qed
  have excl: "\<not> (notExpired b now = Inr True \<and> isExpired b now = Inr True)"
  proof (cases "unat now < unat (createdAt b) + unat EXPIRY_PERIOD")
    case True
    from isExpired_early [OF True] show ?thesis by simp
  next
    case False
    then have "unat now \<ge> unat (createdAt b) + unat EXPIRY_PERIOD" by simp
    from notExpired_late [OF this] show ?thesis by simp
  qed
  from late_accept late_expire early_expire compl excl show ?thesis
    by (simp add: isl_after_call)
qed

theorem expiry_guards_witness:
  "status (bookings (tb demo_pending) 1) = Pending
   \<and> isl (acceptBooking demo_pending 4 433000 1)
   \<and> (\<exists>w'. handleExpiredBooking demo_pending 5 433000 1 = Inr w'
         \<and> status (bookings (tb w') 1) = Expired
         \<and> sent (tb w') = [(Some 1, 3, 1000)]
         \<and> balance (tb w') = 0)
   \<and> isl (handleExpiredBooking demo_pending 5 432999 1)
   \<and> notExpired (bookings (tb demo_pending) 1) 432999 = Inr True
   \<and> isExpired (bookings (tb demo_pending) 1) 432999 \<noteq> Inr True"
  using expiry_guards [of demo_pending 1 433000 4] expiry_guards [of demo_pending 1 433000 5]
    expiry_guards [of demo_pending 1 432999 5] demo_pending_world_facts
  by (simp add: EXPIRY_PERIOD_def notExpired_def isExpired_def checked_add_def bind_def)

subsection \<open>The stored score and tier\<close>

lemma bindE:
  assumes "bind r f = Inr y"
  obtains x where "r = Inr x" and "f x = Inr y"
  using assms by (cases r) (simp_all add: bind_def)

lemma checked_add_eq_Inr: "checked_add a b = Inr c \<Longrightarrow> c = a + b \<and> unat c = unat a + unat b"
  by (auto simp: checked_add_def unat_add_lem [THEN iffD1] split: if_splits)

lemma checked_mul_eq_Inr: "checked_mul a b = Inr c \<Longrightarrow> c = a * b \<and> unat c = unat a * unat b"
  by (auto simp: checked_mul_def unat_mult_lem [THEN iffD1] split: if_splits)

lemma weightedTotal_Inr:
  assumes "weightedTotal a b c = Inr t"
  shows "unat t = (unat a * 50 + unat b * 40 + unat c * 10) div 100"
proof -
  from assms obtain x1 x2 x3 x4 x5 where
    "checked_mul a 50 = Inr x1" "checked_mul b 40 = Inr x2" "checked_add x1 x2 = Inr x3"
    "checked_mul c 10 = Inr x4" "checked_add x3 x4 = Inr x5" "t = x5 div 100"
    unfolding weightedTotal_def by (auto elim!: bindE)
  then show ?thesis
    by (auto dest!: checked_add_eq_Inr checked_mul_eq_Inr simp: unat_div)
qed

lemma calculateLevel_default:
  "calculateLevel defaultThresholds s =
     (if unat s \<ge> 5000 then Diamond else if unat s \<ge> 3000 then Gold
      else if unat s \<ge> 1000 then Silver else Bronze)"
  by (simp add: calculateLevel_def defaultThresholds_def word_le_nat_alt)

lemma updateReputation_effect:
  assumes "updateReputation n sender now user onchain social token txs vol cnt avg = Inr n'"
  shows "userToTokenId n user \<noteq> 0
     \<and> (\<exists>t. weightedTotal onchain social token = Inr t
          \<and> n' = n\<lparr>reputationData := (reputationData n)(userToTokenId n user :=
              (reputationData n (userToTokenId n user))
                \<lparr>onchainScore := onchain, socialScore := social, tokenHoldingScore := token,
                 transactionCount := txs, volumeTraded := vol,
                 bookingsCompleted := cnt, averageRating := avg,
                 totalScore := t, level := calculateLevel (levelThresholds n) t,
                 lastUpdated := now\<rparr>)\<rparr>)"
  using assms
  by (auto simp: updateReputation_def Let_def split: if_splits elim!: bindE)

lemma updateUserReputation_registered:
  assumes "updateUserReputation r now user = Inr r'" and "userToTokenId (nft r) user \<noteq> 0"
  shows "\<exists>onchain social n'.
           calculateOnchainScore (rt r) user = Inr onchain
         \<and> calculateSocialScore (rt r) user = Inr social
         \<and> rt_reputationNFT (rt r) = nftAddr r
         \<and> updateReputation (nft r) (rtAddr r) now user onchain social
              (calculateTokenHoldingScore (rt r) user)
              (totalTransactions (userActivities (rt r) user))
              (totalVolumeTraded (userActivities (rt r) user))
              (totalBookingsCompleted (userActivities (rt r) user))
              (if totalRatingCount (userActivities (rt r) user) > 0
               then totalRatingSum (userActivities (rt r) user)
                      div totalRatingCount (userActivities (rt r) user) else 0) = Inr n'
         \<and> r' = r\<lparr>nft := n'\<rparr>"
  using assms
  by (auto simp: updateUserReputation_def nft_at_def Let_def split: if_splits elim!: bindE)

text \<open>
  C8.  Whenever the tracker recomputes the reputation of a registered user, whatever the
  counters, social metrics, token holdings and point configuration, the record stored
  in the token holds the three component scores computed from the user's state, and a
  total equal to \<open>(onchainScore \<times> 50 + socialScore \<times> 40 + tokenHoldingScore \<times> 10) div 100\<close>
  in exact natural-number arithmetic (no wrap-around; division rounds down, which for
  unsigned numbers is rounding toward zero).  It is the value \<open>_calculateTotalScore\<close>
  returns.  The tier is computed from that total with the thresholds in force: with the
  default thresholds, Diamond from 5000, Gold from 3000, Silver from 1000, Bronze below.
\<close>

theorem stored_score_and_tier:
  fixes r r' :: reputation and user :: address and d :: ReputationData
  defines "d \<equiv> reputationData (nft r') (userToTokenId (nft r) user)"
  assumes "updateUserReputation r now user = Inr r'" and "userToTokenId (nft r) user \<noteq> 0"
  shows "calculateOnchainScore (rt r) user = Inr (onchainScore d)
     \<and> calculateSocialScore (rt r) user = Inr (socialScore d)
     \<and> calculateTokenHoldingScore (rt r) user = tokenHoldingScore d
     \<and> unat (totalScore d)
         = (unat (onchainScore d) * 50 + unat (socialScore d) * 40 + unat (tokenHoldingScore d) * 10)
             div 100
     \<and> calculateTotalScore (rt r) user = Inr (totalScore d)
     \<and> level d = calculateLevel (levelThresholds (nft r)) (totalScore d)
     \<and> (levelThresholds (nft r) = defaultThresholds \<longrightarrow>
          level d = (if unat (totalScore d) \<ge> 5000 then Diamond
                     else if unat (totalScore d) \<ge> 3000 then Gold
                     else if unat (totalScore d) \<ge> 1000 then Silver else Bronze))"
proof -
  from updateUserReputation_registered [OF assms(2,3)]
  obtain onchain social n' avg where
    on: "calculateOnchainScore (rt r) user = Inr onchain" and
    so: "calculateSocialScore (rt r) user = Inr social" and
    up: "updateReputation (nft r) (rtAddr r) now user onchain social
              (calculateTokenHoldingScore (rt r) user)
              (totalTransactions (userActivities (rt r) user))
              (totalVolumeTraded (userActivities (rt r) user))
              (totalBookingsCompleted (userActivities (rt r) user)) avg = Inr n'" and
    r': "r' = r\<lparr>nft := n'\<rparr>"
    by metis
  from updateReputation_effect [OF up] obtain t where
    wt: "weightedTotal onchain social (calculateTokenHoldingScore (rt r) user) = Inr t" and
    d: "d = (reputationData (nft r) (userToTokenId (nft r) user))
                \<lparr>onchainScore := onchain, socialScore := social,
                 tokenHoldingScore := calculateTokenHoldingScore (rt r) user,
                 transactionCount := totalTransactions (userActivities (rt r) user),
                 volumeTraded := totalVolumeTraded (userActivities (rt r) user),
                 bookingsCompleted := totalBookingsCompleted (userActivities (rt r) user),
                 averageRating := avg,
                 totalScore := t, level := calculateLevel (levelThresholds (nft r)) t,
                 lastUpdated := now\<rparr>"
    unfolding d_def r' by auto
  have tot: "calculateTotalScore (rt r) user = Inr t"
    by (simp add: calculateTotalScore_def on so bind_def wt)
  from weightedTotal_Inr [OF wt] on so tot show ?thesis
    by (simp add: d calculateLevel_default)
qed


lemmas rep_defs = rep_social_def rep_registered_def rep_authorized_def demo0_def deploy_def
  rt_constructor_def nft_constructor_def setAuthorizedUpdater_def registerUser_def
  updateSocialMetrics_def updateUserReputation_def emitActivityTracked_def nft_at_def
  mintReputationNFT_def updateReputation_def calculateTotalScore_def calculateOnchainScore_def
  calculateSocialScore_def calculateTokenHoldingScore_def weightedTotal_def calculateLevel_def
  defaultThresholds_def defaultPointConfig_def emptyActivity_def emptySocial_def
  emptyReputationData_def after_call_def bind_def checked_add_def checked_mul_def
  increment_def Let_def

lemma rep_social_facts:
  "userToTokenId (nft rep_social) 3 = 1
   \<and> levelThresholds (nft rep_social) = defaultThresholds
   \<and> calculateOnchainScore (rt rep_social) 3 = Inr 0
   \<and> calculateSocialScore (rt rep_social) 3 = Inr 3400
   \<and> calculateTokenHoldingScore (rt rep_social) 3 = 0
   \<and> \<not> isl (updateUserReputation rep_social 700 3)"
  by (simp add: rep_defs)

theorem stored_score_and_tier_witness:
  "userToTokenId (nft rep_social) 3 \<noteq> 0
   \<and> (\<exists>r'. updateUserReputation rep_social 700 3 = Inr r'
         \<and> socialScore (reputationData (nft r') 1) = 3400
         \<and> unat (totalScore (reputationData (nft r') 1)) = 1360
         \<and> level (reputationData (nft r') 1) = Silver)"
proof -
  from rep_social_facts obtain r' where u: "updateUserReputation rep_social 700 3 = Inr r'"
    by (cases "updateUserReputation rep_social 700 3") auto
  have tid: "userToTokenId (nft rep_social) 3 = 1" using rep_social_facts by simp
  then have reg: "userToTokenId (nft rep_social) 3 \<noteq> 0" by simp
  note t = stored_score_and_tier [OF u reg, unfolded tid]
  have parts: "onchainScore (reputationData (nft r') 1) = 0"
    "socialScore (reputationData (nft r') 1) = 3400"
    "tokenHoldingScore (reputationData (nft r') 1) = 0"
    using t rep_social_facts by simp_all
  have total: "unat (totalScore (reputationData (nft r') 1)) = 1360"
    using t parts by simp
  have "level (reputationData (nft r') 1) = Silver"
    using t total rep_social_facts by (simp add: calculateLevel_default)
  with u reg parts total show ?thesis by simp
qed

subsection \<open>The KOL flag\<close>

lemma nft_constructor_wf: "nft_wf (nft_constructor d)"
  by (simp add: nft_wf_def nft_constructor_def)

lemma mint_kol_inv:
  assumes m: "mintReputationNFT n now to = Inr (tid, n')" and k: "kol_inv user n"
  shows "kol_inv user n'"
proof -
  from m have z: "userToTokenId n to = 0" and nz: "to \<noteq> 0"
    and fresh: "nft_tokenOwner n (increment (tokenIdCounter n)) = 0"
    and n': "n' = n\<lparr>tokenIdCounter := increment (tokenIdCounter n),
            reputationData := (reputationData n)(increment (tokenIdCounter n) :=
                                 emptyReputationData\<lparr>lastUpdated := now\<rparr>),
            userToTokenId := (userToTokenId n)(to := increment (tokenIdCounter n)),
            nft_tokenOwner := (nft_tokenOwner n)(increment (tokenIdCounter n) := to)\<rparr>"
    by (auto simp: mintReputationNFT_def Let_def split: if_splits)
  from k have wf: "\<And>u. userToTokenId n u \<noteq> 0 \<Longrightarrow> u \<noteq> 0 \<and> nft_tokenOwner n (userToTokenId n u) = u"
    and t: "userToTokenId n user \<noteq> 0" and f: "isKOL (reputationData n (userToTokenId n user))"
    by (auto simp: kol_inv_def nft_wf_def has_kol_flag_def)
  have other: "userToTokenId n u \<noteq> increment (tokenIdCounter n)" if "userToTokenId n u \<noteq> 0" for u
    using wf [OF that] fresh by auto
  from t z have "user \<noteq> to" by auto
  with t f other [OF t] have "has_kol_flag n' user"
    by (simp add: has_kol_flag_def n')
  moreover have "nft_wf n'"
    unfolding nft_wf_def
  proof (intro allI impI)
    fix u assume a: "userToTokenId n' u \<noteq> 0"
    show "u \<noteq> 0 \<and> nft_tokenOwner n' (userToTokenId n' u) = u"
    proof (cases "u = to")
      case True
      with nz show ?thesis by (simp add: n')
    next
      case False
      with a have "userToTokenId n u \<noteq> 0" by (simp add: n')
      from wf [OF this] other [OF this] False show ?thesis by (simp add: n')
    qed
  qed
  ultimately show ?thesis by (simp add: kol_inv_def)
qed

lemma update_kol_inv:
  "updateReputation n sender now u onchain social token txs vol cnt avg = Inr n'
   \<Longrightarrow> kol_inv user n \<Longrightarrow> kol_inv user n'"
  by (auto simp: updateReputation_def kol_inv_def nft_wf_def has_kol_flag_def Let_def
      split: if_splits elim!: bindE)

lemma nft_wf_inj:
  "nft_wf n \<Longrightarrow> userToTokenId n u \<noteq> 0 \<Longrightarrow> userToTokenId n u = userToTokenId n v \<Longrightarrow> u = v"
  by (metis nft_wf_def)

lemma setKOL_kol_inv:
  assumes s: "setKOLStatus n sender u flag = Inr n'" and ok: "flag \<or> u \<noteq> user"
    and k: "kol_inv user n"
  shows "kol_inv user n'"
proof -
  from s have t: "userToTokenId n u \<noteq> 0"
    and n': "n' = n\<lparr>reputationData := (reputationData n)(userToTokenId n u :=
               (reputationData n (userToTokenId n u))\<lparr>isKOL := flag\<rparr>)\<rparr>"
    by (auto simp: setKOLStatus_def Let_def split: if_splits)
  from k have wf: "nft_wf n" and h: "has_kol_flag n user" by (auto simp: kol_inv_def)
  have "flag \<or> userToTokenId n u \<noteq> userToTokenId n user"
    using ok nft_wf_inj [OF wf t] by auto
  with h have "has_kol_flag n' user" by (auto simp: has_kol_flag_def n')
  moreover from wf have "nft_wf n'" by (simp add: nft_wf_def n')
  ultimately show ?thesis by (simp add: kol_inv_def)
qed

lemma updateUser_unregistered:
  "updateUserReputation r now u = Inr r' \<Longrightarrow> userToTokenId (nft r) u = 0 \<Longrightarrow> r' = r"
  by (auto simp: updateUserReputation_def nft_at_def Let_def split: if_splits elim!: bindE)

lemma updateUser_kol_inv:
  assumes u: "updateUserReputation r now u = Inr r'" and k: "kol_inv user (nft r)"
  shows "kol_inv user (nft r')"
proof (cases "userToTokenId (nft r) u = 0")
  case True
  from updateUser_unregistered [OF u True] k show ?thesis by simp
next
  case False
  from updateUserReputation_registered [OF u False] obtain onchain social n' avg where
    up: "updateReputation (nft r) (rtAddr r) now u onchain social
              (calculateTokenHoldingScore (rt r) u)
              (totalTransactions (userActivities (rt r) u))
              (totalVolumeTraded (userActivities (rt r) u))
              (totalBookingsCompleted (userActivities (rt r) u)) avg = Inr n'"
    and r': "r' = r\<lparr>nft := n'\<rparr>"
    by metis
  from update_kol_inv [OF up k] r' show ?thesis by simp
qed

lemma updateUser_frame:
  "updateUserReputation r now u = Inr r'
   \<Longrightarrow> rt r' = rt r \<and> rtAddr r' = rtAddr r \<and> nftAddr r' = nftAddr r"
  by (auto simp: updateUserReputation_def nft_at_def Let_def split: if_splits elim!: bindE)

lemma emit_same: "emitActivityTracked r u = Inr r' \<Longrightarrow> r' = r"
  by (auto simp: emitActivityTracked_def elim!: bindE)


lemma updateUser_kol_imp:
  "updateUserReputation r now u = Inr r' \<Longrightarrow> kol_inv user (nft r) \<longrightarrow> kol_inv user (nft r')"
  using updateUser_kol_inv by blast

lemma bulkUpdate_kol_inv:
  "bulkUpdate r now us = Inr r' \<Longrightarrow> kol_inv user (nft r) \<Longrightarrow> kol_inv user (nft r')"
proof (induction us arbitrary: r)
  case Nil
  then show ?case by simp
next
  case (Cons u us)
  from Cons.prems(1) obtain r1 where a: "updateUserReputation r now u = Inr r1"
    and b: "bulkUpdate r1 now us = Inr r'"
    by (auto elim!: bindE)
  from Cons.IH [OF b updateUser_kol_inv [OF a Cons.prems(2)]] show ?case .
qed

lemma bulkUpdate_frame:
  "bulkUpdate r now us = Inr r' \<Longrightarrow> rt r' = rt r \<and> rtAddr r' = rtAddr r \<and> nftAddr r' = nftAddr r"
proof (induction us arbitrary: r)
  case Nil
  then show ?case by simp
next
  case (Cons u us)
  from Cons.prems(1) obtain r1 where a: "updateUserReputation r now u = Inr r1"
    and b: "bulkUpdate r1 now us = Inr r'"
    by (auto elim!: bindE)
  from Cons.IH [OF b] updateUser_frame [OF a] show ?case by simp
qed

lemma mint_kol_imp:
  "mintReputationNFT n now to = Inr (tid, n') \<Longrightarrow> kol_inv user n \<longrightarrow> kol_inv user n'"
  using mint_kol_inv by blast

lemma setKOL_True_kol_imp:
  "setKOLStatus n sender u True = Inr n' \<Longrightarrow> kol_inv user n \<longrightarrow> kol_inv user n'"
  using setKOL_kol_inv by blast

lemma update_kol_imp:
  "updateReputation n sender now u onchain social token txs vol cnt avg = Inr n'
   \<Longrightarrow> kol_inv user n \<longrightarrow> kol_inv user n'"
  using update_kol_inv by blast

lemma bulkUpdate_kol_imp:
  "bulkUpdate r now us = Inr r' \<Longrightarrow> kol_inv user (nft r) \<longrightarrow> kol_inv user (nft r')"
  using bulkUpdate_kol_inv by blast

lemma rep_call_kol_inv:
  assumes c: "rep_call r sender now call = Inr r'" and k: "kol_inv user (nft r)"
    and ok: "call \<noteq> SetKOLStatus user False"
  shows "kol_inv user (nft r')"
proof (cases call)
  case RegisterUser
  with c k show ?thesis
    by (auto simp: registerUser_def nft_at_def split: if_splits prod.splits
        elim!: bindE dest!: mint_kol_imp [where user = user])
next
  case (TrackTransaction u v i h)
  with c k show ?thesis
    by (auto simp: trackTransaction_def Let_def split: if_splits elim!: bindE
        dest!: emit_same updateUser_kol_imp [where user = user])
next
  case (TrackBookingCreated u b)
  with c k show ?thesis
    by (auto simp: trackBookingCreated_def onlyTimeBooking_def Let_def split: if_splits
        elim!: bindE dest!: emit_same updateUser_kol_imp [where user = user])
next
  case (TrackBookingAccepted u b)
  with c k show ?thesis
    by (auto simp: trackBookingAccepted_def onlyTimeBooking_def nft_at_def Let_def
        split: if_splits elim!: bindE
        dest!: emit_same updateUser_kol_imp [where user = user]
          setKOL_True_kol_imp [where user = user])
next
  case (TrackBookingCompleted u v b s)
  with c k show ?thesis
    by (auto simp: trackBookingCompleted_def onlyTimeBooking_def Let_def split: if_splits
        elim!: bindE dest!: emit_same updateUser_kol_imp [where user = user])
next
  case (UpdateTokenHoldings u b)
  with c k show ?thesis
    by (auto simp: updateTokenHoldings_def Let_def split: if_splits
        elim!: bindE dest!: emit_same updateUser_kol_imp [where user = user])
next
  case (UpdateSocialMetrics u m)
  with c k show ?thesis
    by (auto simp: updateSocialMetrics_def Let_def split: if_splits
        elim!: bindE dest!: emit_same updateUser_kol_imp [where user = user])
next
  case (UpdatePointConfig cfg)
  with c k show ?thesis
    by (auto simp: updatePointConfig_def rt_onlyOwner_def split: if_splits)
next
  case (SetTimeBookingContract a)
  with c k show ?thesis
    by (auto simp: setTimeBookingContract_def rt_onlyOwner_def split: if_splits)
next
  case (SetReputationNFTContract a)
  with c k show ?thesis
    by (auto simp: setReputationNFTContract_def rt_onlyOwner_def split: if_splits)
next
  case (BulkUpdateReputations us)
  with c k show ?thesis
    by (auto simp: bulkUpdateReputations_def rt_onlyOwner_def split: if_splits
        dest!: bulkUpdate_kol_imp [where user = user])
next
  case (MintReputationNFT to)
  with c k show ?thesis
    by (auto simp: on_nft_def split: prod.splits elim!: bindE
        dest!: mint_kol_imp [where user = user])
next
  case (UpdateReputation u a b c d e f g)
  with c k show ?thesis
    by (auto simp: on_nft_def elim!: bindE dest!: update_kol_imp [where user = user])
next
  case (SetKOLStatus u flag)
  with c obtain n' where s: "setKOLStatus (nft r) sender u flag = Inr n'"
    and r': "r' = r\<lparr>nft := n'\<rparr>"
    by (auto simp: on_nft_def elim!: bindE)
  from ok SetKOLStatus have "flag \<or> u \<noteq> user" by auto
  from setKOL_kol_inv [OF s this k] r' show ?thesis by simp
next
  case (SetAuthorizedUpdater u flag)
  with c k show ?thesis
    by (auto simp: on_nft_def setAuthorizedUpdater_def kol_inv_def nft_wf_def has_kol_flag_def
        split: if_splits elim!: bindE)
next
  case (UpdateLevelThresholds b s g d)
  with c k show ?thesis
    by (auto simp: on_nft_def updateLevelThresholds_def kol_inv_def nft_wf_def has_kol_flag_def
        split: if_splits elim!: bindE)
qed


lemma rep_run_kol_inv:
  "kol_inv user (nft r) \<Longrightarrow> \<forall>c \<in> set calls. snd (snd c) \<noteq> SetKOLStatus user False
   \<Longrightarrow> kol_inv user (nft (rep_run r calls))"
proof (induction calls arbitrary: r)
  case Nil
  then show ?case by simp
next
  case (Cons c calls)
  obtain sender now call where c: "c = (sender, now, call)" by (cases c) auto
  with Cons.prems(2) have ok: "call \<noteq> SetKOLStatus user False" by simp
  have "kol_inv user (nft (after_call r (rep_call r sender now call)))"
  proof (cases "rep_call r sender now call")
    case (Inl e)
    with Cons.prems(1) show ?thesis by (simp add: after_call_def)
  next
    case (Inr r1)
    from rep_call_kol_inv [OF Inr Cons.prems(1) ok] Inr show ?thesis by (simp add: after_call_def)
  qed
  from Cons.IH [OF this] Cons.prems(2) c show ?case by simp
qed

lemmas rep_kol_defs = rep_kol_def rep_registered_def rep_authorized_def demo0_def deploy_def
  rt_constructor_def nft_constructor_def setAuthorizedUpdater_def registerUser_def
  trackBookingAccepted_def onlyTimeBooking_def setKOLStatus_def on_nft_def
  updateUserReputation_def emitActivityTracked_def nft_at_def
  mintReputationNFT_def updateReputation_def calculateTotalScore_def calculateOnchainScore_def
  calculateSocialScore_def calculateTokenHoldingScore_def weightedTotal_def calculateLevel_def
  defaultThresholds_def defaultPointConfig_def emptyActivity_def emptySocial_def
  emptyReputationData_def after_call_def bind_def checked_add_def checked_mul_def
  increment_def Let_def

lemma rep_kol_facts:
  "userToTokenId (nft rep_kol) = (\<lambda>_. 0)(3 := 1)
   \<and> nft_tokenOwner (nft rep_kol) = (\<lambda>_. 0)(1 := 3)
   \<and> isKOL (reputationData (nft rep_kol) 1)
   \<and> nft_owner (nft rep_kol) = 1"
  by (simp add: rep_kol_defs)

text \<open>
  C9, as stated, fails: \<open>setKOLStatus\<close> of the token contract takes the new value of
  the flag as an argument and may be called by the owner and by every authorised
  updater.  After TimeBooking has reported the first acceptance of account 3, whose flag
  is then set, the owner calls \<open>setKOLStatus(3, false)\<close> and the flag is cleared.
\<close>

theorem isKOL_reset_counterexample:
  "isKOL (reputationData (nft rep_kol) (userToTokenId (nft rep_kol) 3))
   \<and> \<not> isKOL (reputationData (nft (rep_run rep_kol [(1, 3000, SetKOLStatus 3 False)]))
               (userToTokenId (nft (rep_run rep_kol [(1, 3000, SetKOLStatus 3 False)])) 3))"
  using rep_kol_facts
  by (simp add: on_nft_def setKOLStatus_def bind_def after_call_def)

text \<open>
  C9, amended.  For a user who has a reputation token whose record carries the KOL flag
  (in a token contract whose users own the tokens recorded for them), every sequence
  of calls to the tracker and to the token contract, by any callers at any times, that
  contains no direct \<open>setKOLStatus(user, false)\<close> leaves the flag set: the tracker itself
  only ever sets it to true.
\<close>

theorem isKOL_preserved:
  assumes "nft_wf (nft r)" and "has_kol_flag (nft r) user"
    and "\<forall>c \<in> set calls. snd (snd c) \<noteq> SetKOLStatus user False"
  shows "has_kol_flag (nft (rep_run r calls)) user"
  using rep_run_kol_inv [of user r calls] assms by (simp add: kol_inv_def)

theorem isKOL_preserved_witness:
  "nft_wf (nft rep_kol) \<and> has_kol_flag (nft rep_kol) 3
   \<and> has_kol_flag (nft (rep_run rep_kol
        [(10, 2500, TrackBookingAccepted 3 2), (1, 2600, SetKOLStatus 3 True),
         (5, 2700, RegisterUser), (1, 2800, SetKOLStatus 5 False),
         (3, 2900, UpdateTokenHoldings 3 7)])) 3"
proof -
  have wf: "nft_wf (nft rep_kol)" using rep_kol_facts by (simp add: nft_wf_def)
  have fl: "has_kol_flag (nft rep_kol) 3" using rep_kol_facts by (simp add: has_kol_flag_def)
  from isKOL_preserved [OF wf fl, of "[(10, 2500, TrackBookingAccepted 3 2), (1, 2600, SetKOLStatus 3 True),
         (5, 2700, RegisterUser), (1, 2800, SetKOLStatus 5 False),
         (3, 2900, UpdateTokenHoldings 3 7)]"] wf fl
  show ?thesis by simp
qed

subsection \<open>Replayed transactions\<close>

lemma trackTransaction_effect:
  assumes t: "trackTransaction r sender now user amount iw txHash = Inr r'"
  shows "\<not> processedTransactions (rt r) txHash
     \<and> processedTransactions (rt r') txHash
     \<and> unat (totalTransactions (userActivities (rt r') user))
         = unat (totalTransactions (userActivities (rt r) user)) + 1
     \<and> unat (totalVolumeTraded (userActivities (rt r') user))
         = unat (totalVolumeTraded (userActivities (rt r) user)) + unat amount"
  using t
  by (auto simp: trackTransaction_def Let_def split: if_splits elim!: bindE
      dest!: emit_same updateUser_frame checked_add_eq_Inr)

lemma trackTransaction_replay:
  "processedTransactions (rt r) txHash
   \<Longrightarrow> trackTransaction r sender now user amount iw txHash
         = Inl (Revert ''Transaction already processed'')"
  by (simp add: trackTransaction_def)

lemma rep_call_processed:
  assumes c: "rep_call r sender now call = Inr r'" and p: "processedTransactions (rt r) h"
  shows "processedTransactions (rt r') h"
proof (cases call)
  case RegisterUser
  with c p show ?thesis
    by (auto simp: registerUser_def nft_at_def split: if_splits prod.splits elim!: bindE)
next
  case (TrackTransaction u v i h')
  with c p show ?thesis
    by (auto simp: trackTransaction_def Let_def split: if_splits elim!: bindE
        dest!: emit_same updateUser_frame)
next
  case (TrackBookingCreated u b)
  with c p show ?thesis
    by (auto simp: trackBookingCreated_def onlyTimeBooking_def Let_def split: if_splits
        elim!: bindE dest!: emit_same updateUser_frame)
next
  case (TrackBookingAccepted u b)
  with c p show ?thesis
    by (auto simp: trackBookingAccepted_def onlyTimeBooking_def nft_at_def Let_def
        split: if_splits elim!: bindE dest!: emit_same updateUser_frame)
next
  case (TrackBookingCompleted u v b s)
  with c p show ?thesis
    by (auto simp: trackBookingCompleted_def onlyTimeBooking_def Let_def split: if_splits
        elim!: bindE dest!: emit_same updateUser_frame)
next
  case (UpdateTokenHoldings u b)
  with c p show ?thesis
    by (auto simp: updateTokenHoldings_def Let_def split: if_splits
        elim!: bindE dest!: emit_same updateUser_frame)
next
  case (UpdateSocialMetrics u m)
  with c p show ?thesis
    by (auto simp: updateSocialMetrics_def Let_def split: if_splits
        elim!: bindE dest!: emit_same updateUser_frame)
next
  case (UpdatePointConfig cfg)
  with c p show ?thesis
    by (auto simp: updatePointConfig_def rt_onlyOwner_def split: if_splits)
next
  case (SetTimeBookingContract a)
  with c p show ?thesis
    by (auto simp: setTimeBookingContract_def rt_onlyOwner_def split: if_splits)
next
  case (SetReputationNFTContract a)
  with c p show ?thesis
    by (auto simp: setReputationNFTContract_def rt_onlyOwner_def split: if_splits)
next
  case (BulkUpdateReputations us)
  with c p show ?thesis
    by (auto simp: bulkUpdateReputations_def rt_onlyOwner_def split: if_splits
        dest!: bulkUpdate_frame)
next
  case (MintReputationNFT to)
  with c p show ?thesis by (auto simp: on_nft_def elim!: bindE)
next
  case (UpdateReputation u a b c d e f g)
  with c p show ?thesis by (auto simp: on_nft_def elim!: bindE)
next
  case (SetKOLStatus u flag)
  with c p show ?thesis by (auto simp: on_nft_def elim!: bindE)
next
  case (SetAuthorizedUpdater u flag)
  with c p show ?thesis by (auto simp: on_nft_def elim!: bindE)
next
  case (UpdateLevelThresholds b s g d)
  with c p show ?thesis by (auto simp: on_nft_def elim!: bindE)
qed

lemma rep_run_processed:
  "processedTransactions (rt r) h \<Longrightarrow> processedTransactions (rt (rep_run r calls)) h"
proof (induction calls arbitrary: r)
  case Nil
  then show ?case by simp
next
  case (Cons c calls)
  obtain sender now call where c: "c = (sender, now, call)" by (cases c) auto
  have "processedTransactions (rt (after_call r (rep_call r sender now call))) h"
  proof (cases "rep_call r sender now call")
    case (Inl e)
    with Cons.prems show ?thesis by (simp add: after_call_def)
  next
    case (Inr r1)
    from rep_call_processed [OF Inr Cons.prems] Inr show ?thesis by (simp add: after_call_def)
  qed
  from Cons.IH [OF this] c show ?case by simp
qed

text \<open>
  C7.  A \<open>trackTransaction\<close> call with a transaction hash not seen before that goes
  through marks the hash as processed and adds exactly 1 to the user's
  \<open>totalTransactions\<close> and exactly the given value to \<open>totalVolumeTraded\<close> (checked
  arithmetic: no wrap-around).  Once a hash is processed it stays processed whatever
  is called on the two reputation contracts afterwards, and every later
  \<open>trackTransaction\<close> with that hash, for any user, value and caller, fails on its first
  line with \<open>Transaction already processed\<close> and leaves the whole state, counters,
  interacted-with sets and processed set included, unchanged.
\<close>

theorem trackTransaction_once:
  "(\<not> processedTransactions (rt r) txHash
      \<and> trackTransaction r sender now user amount iw txHash = Inr r' \<longrightarrow>
        processedTransactions (rt r') txHash
      \<and> unat (totalTransactions (userActivities (rt r') user))
          = unat (totalTransactions (userActivities (rt r) user)) + 1
      \<and> unat (totalVolumeTraded (userActivities (rt r') user))
          = unat (totalVolumeTraded (userActivities (rt r) user)) + unat amount)
   \<and> (processedTransactions (rt r) txHash \<longrightarrow>
        (let later = rep_run r calls in
         trackTransaction later sender2 now2 user2 amount2 iw2 txHash
           = Inl (Revert ''Transaction already processed'')
         \<and> after_call later (trackTransaction later sender2 now2 user2 amount2 iw2 txHash) = later))"
  using trackTransaction_effect [of r sender now user amount iw txHash r']
    trackTransaction_replay [OF rep_run_processed, of r txHash calls sender2 now2 user2 amount2 iw2]
  by (simp add: Let_def after_call_def)

lemmas rep_tx_defs = rep_registered_def rep_authorized_def demo0_def deploy_def
  rt_constructor_def nft_constructor_def setAuthorizedUpdater_def registerUser_def
  trackTransaction_def
  updateUserReputation_def emitActivityTracked_def nft_at_def
  mintReputationNFT_def updateReputation_def calculateTotalScore_def calculateOnchainScore_def
  calculateSocialScore_def calculateTokenHoldingScore_def weightedTotal_def calculateLevel_def
  defaultThresholds_def defaultPointConfig_def emptyActivity_def emptySocial_def
  emptyReputationData_def after_call_def bind_def checked_add_def checked_mul_def
  increment_def Let_def

lemma rep_registered_tx:
  "\<not> processedTransactions (rt rep_registered) 77
   \<and> totalTransactions (userActivities (rt rep_registered) 3) = 0
   \<and> totalVolumeTraded (userActivities (rt rep_registered) 3) = 0
   \<and> \<not> isl (trackTransaction rep_registered 7 800 3 5000000000000000000 9 77)"
  by (simp add: rep_tx_defs)

theorem trackTransaction_once_witness:
  "\<not> processedTransactions (rt rep_registered) 77
   \<and> (\<exists>r'. trackTransaction rep_registered 7 800 3 5000000000000000000 9 77 = Inr r'
         \<and> processedTransactions (rt r') 77
         \<and> unat (totalTransactions (userActivities (rt r') 3)) = 1
         \<and> unat (totalVolumeTraded (userActivities (rt r') 3)) = 5000000000000000000
         \<and> trackTransaction (rep_run r' [(8, 850, TrackTransaction 3 1 9 78)]) 7 900 3
              5000000000000000000 9 77 = Inl (Revert ''Transaction already processed''))"
proof -
  from rep_registered_tx obtain r' where
    t: "trackTransaction rep_registered 7 800 3 5000000000000000000 9 77 = Inr r'"
    by (cases "trackTransaction rep_registered 7 800 3 5000000000000000000 9 77") auto
  from trackTransaction_once [of rep_registered 77 7 800 3 5000000000000000000 9 r'] t
    rep_registered_tx
  have first: "processedTransactions (rt r') 77"
    "unat (totalTransactions (userActivities (rt r') 3)) = 1"
    "unat (totalVolumeTraded (userActivities (rt r') 3)) = 5000000000000000000"
    by simp_all
  from trackTransaction_once [of r' 77 7 800 3 5000000000000000000 9 r'
      "[(8, 850, TrackTransaction 3 1 9 78)]" 7 900 3 5000000000000000000 9] first(1)
  have "trackTransaction (rep_run r' [(8, 850, TrackTransaction 3 1 9 78)]) 7 900 3
              5000000000000000000 9 77 = Inl (Revert ''Transaction already processed'')"
    by (simp add: Let_def)
  with t first rep_registered_tx show ?thesis by simp
qed

subsection \<open>Exactly-once disbursement\<close>

lemma accept_tb:
  "acceptBooking w sender now bid = Inr w'
   \<Longrightarrow> status (bookings (tb w) bid) = Pending
     \<and> tb w' = (tb w)\<lparr>bookings := (bookings (tb w))(bid :=
                 (bookings (tb w) bid)\<lparr>status := Accepted, updatedAt := now\<rparr>)\<rparr>"
  by (auto simp: acceptBooking_def setBooking_def Let_def split: if_splits
      elim!: bindE dest!: tracker_at_tb)

lemma refund_tb:
  "refundBuyer (setBooking w bid b') bid b' = Inr w'
   \<Longrightarrow> tb w' = (tb w)\<lparr>bookings := (bookings (tb w))(bid := b'),
                     balance := balance (tb w) - unat (totalAmount b'),
                     sent := sent (tb w) @ [(Some bid, buyer b', unat (totalAmount b'))]\<rparr>"
  by (auto simp: refundBuyer_def setBooking_def transfer_def split: if_splits elim!: bindE)

lemma reject_tb:
  "rejectBooking w sender now bid = Inr w'
   \<Longrightarrow> status (bookings (tb w) bid) = Pending
     \<and> tb w' = (tb w)\<lparr>bookings := (bookings (tb w))(bid :=
                   (bookings (tb w) bid)\<lparr>status := Rejected, updatedAt := now\<rparr>),
                 balance := balance (tb w) - unat (totalAmount (bookings (tb w) bid)),
                 sent := sent (tb w) @ [(Some bid, buyer (bookings (tb w) bid),
                                         unat (totalAmount (bookings (tb w) bid)))]\<rparr>"
  by (auto simp: rejectBooking_def Let_def split: if_splits dest!: refund_tb)

lemma cancel_tb:
  "cancelBooking w sender now bid = Inr w'
   \<Longrightarrow> status (bookings (tb w) bid) = Pending
     \<and> tb w' = (tb w)\<lparr>bookings := (bookings (tb w))(bid :=
                   (bookings (tb w) bid)\<lparr>status := Cancelled, updatedAt := now\<rparr>),
                 balance := balance (tb w) - unat (totalAmount (bookings (tb w) bid)),
                 sent := sent (tb w) @ [(Some bid, buyer (bookings (tb w) bid),
                                         unat (totalAmount (bookings (tb w) bid)))]\<rparr>"
  by (auto simp: cancelBooking_def Let_def split: if_splits dest!: refund_tb)

lemma expire_tb:
  "handleExpiredBooking w sender now bid = Inr w'
   \<Longrightarrow> status (bookings (tb w) bid) = Pending
     \<and> tb w' = (tb w)\<lparr>bookings := (bookings (tb w))(bid :=
                   (bookings (tb w) bid)\<lparr>status := Expired, updatedAt := now\<rparr>),
                 balance := balance (tb w) - unat (totalAmount (bookings (tb w) bid)),
                 sent := sent (tb w) @ [(Some bid, buyer (bookings (tb w) bid),
                                         unat (totalAmount (bookings (tb w) bid)))]\<rparr>"
  by (auto simp: handleExpiredBooking_def Let_def split: if_splits elim!: bindE dest!: refund_tb)

lemma complete_tb:
  "completeSession w sender now bid = Inr w'
   \<Longrightarrow> status (bookings (tb w) bid) = Accepted
     \<and> tb w' = (tb w)\<lparr>bookings := (bookings (tb w))(bid :=
                   (bookings (tb w) bid)\<lparr>sessionEndTime := now, updatedAt := now\<rparr>)\<rparr>"
  by (auto simp: completeSession_def setBooking_def Let_def split: if_splits)

lemma dispute_tb:
  "reportDispute w sender now bid rsn = Inr w'
   \<Longrightarrow> status (bookings (tb w) bid) = Accepted
     \<and> tb w' = (tb w)\<lparr>bookings := (bookings (tb w))(bid :=
                   (bookings (tb w) bid)\<lparr>disputeReported := True, status := Disputed,
                                           updatedAt := now\<rparr>)\<rparr>"
  by (auto simp: reportDispute_def setBooking_def Let_def split: if_splits elim!: bindE)

lemma rate_tb:
  "rateSession w sender now bid stars = Inr w'
   \<Longrightarrow> tb w' = (tb w)\<lparr>bookings := (bookings (tb w))(bid :=
                   (bookings (tb w) bid)\<lparr>rating := stars, ratingSubmitted := True,
                                           updatedAt := now\<rparr>)\<rparr>"
  by (auto simp: rateSession_def setBooking_def Let_def split: if_splits)

lemma release_tb:
  fixes w :: world and bid :: uint256 and b :: Booking and amt fee :: nat
  defines "b \<equiv> bookings (tb w) bid"
  defines "amt \<equiv> unat (totalAmount b)"
  defines "fee \<equiv> amt * unat (platformFeePercent (tb w)) div 10000"
  assumes r: "releasePayment w sender now bid = Inr w'"
  shows "status b = Accepted \<and> fee \<le> amt
     \<and> tb w' = (tb w)\<lparr>bookings := (bookings (tb w))(bid := b\<lparr>status := Completed, updatedAt := now\<rparr>),
                        balance := balance (tb w) - amt,
                        sent := sent (tb w) @ (if fee > 0 then [(Some bid, feeRecipient (tb w), fee)] else [])
                                  @ [(Some bid, kol b, amt - fee)]\<rparr>"
proof -
  from r have st: "status b = Accepted"
    by (auto simp: releasePayment_def Let_def b_def split: if_splits)
  from r st obtain scaled kolPayment t2 t3 where
    mul: "checked_mul (totalAmount b) (platformFeePercent (tb w)) = Inr scaled" and
    sub: "checked_sub (totalAmount b) (scaled div 10000) = Inr kolPayment" and
    t2: "(if scaled div 10000 > 0
          then transfer (setBooking w bid (b\<lparr>status := Completed, updatedAt := now\<rparr>))
                 (tb (setBooking w bid (b\<lparr>status := Completed, updatedAt := now\<rparr>))) (Some bid)
                 (feeRecipient (tb (setBooking w bid (b\<lparr>status := Completed, updatedAt := now\<rparr>))))
                 (unat (scaled div 10000))
          else Inr (tb (setBooking w bid (b\<lparr>status := Completed, updatedAt := now\<rparr>)))) = Inr t2" and
    t3: "transfer (setBooking w bid (b\<lparr>status := Completed, updatedAt := now\<rparr>)) t2
           (Some bid) (kol b) (unat kolPayment) = Inr t3" and
    tr: "tracker_at (setBooking w bid (b\<lparr>status := Completed, updatedAt := now\<rparr>)\<lparr>tb := t3\<rparr>)
           (\<lambda>w' me. trackBookingCompleted w' me now (kol b) (buyer b) bid
              (if ratingSubmitted b then rating b else 25)) = Inr w'"
    by (auto simp: releasePayment_def Let_def b_def [symmetric] split: if_splits elim!: bindE)
  from checked_mul_eq_Inr [OF mul, THEN conjunct2]
  have su: "unat scaled = amt * unat (platformFeePercent (tb w))" by (simp add: amt_def)
  have fee: "unat (scaled div 10000) = fee" by (simp add: unat_div su fee_def)
  from sub have le: "fee \<le> amt" and kp: "unat kolPayment = amt - fee"
    by (auto simp: checked_sub_def fee amt_def unat_sub word_le_nat_alt split: if_splits)
  have pos: "(scaled div 10000 > 0) = (fee > 0)"
    by (simp add: word_less_nat_alt fee)
  from t2 t3 le have "t3 = (tb w)\<lparr>bookings := (bookings (tb w))(bid := b\<lparr>status := Completed, updatedAt := now\<rparr>),
                        balance := balance (tb w) - amt,
                        sent := sent (tb w) @ (if fee > 0 then [(Some bid, feeRecipient (tb w), fee)] else [])
                                  @ [(Some bid, kol b, amt - fee)]\<rparr>"
    by (auto simp: transfer_def setBooking_def pos fee kp split: if_splits)
  with tracker_at_tb [OF tr] st le show ?thesis by simp
qed


lemma escrow_call_inv:
  assumes i: "escrow_inv w0 bid w" and c: "escrow_call w sender now call = Inr w'"
  shows "escrow_inv w0 bid w'"
proof (cases call)
  case (AcceptBooking x)
  with c have "acceptBooking w sender now x = Inr w'" by simp
  from accept_tb [OF this] i show ?thesis
    by (cases "x = bid")
       (auto simp: escrow_inv_def paid_for_def Let_def split: BookingStatus.splits)
next
  case (RejectBooking x)
  with c have "rejectBooking w sender now x = Inr w'" by simp
  from reject_tb [OF this] i show ?thesis
    by (cases "x = bid")
       (auto simp: escrow_inv_def paid_for_def Let_def split: BookingStatus.splits)
next
  case (CancelBooking x)
  with c have "cancelBooking w sender now x = Inr w'" by simp
  from cancel_tb [OF this] i show ?thesis
    by (cases "x = bid")
       (auto simp: escrow_inv_def paid_for_def Let_def split: BookingStatus.splits)
next
  case (CompleteSession x)
  with c have "completeSession w sender now x = Inr w'" by simp
  from complete_tb [OF this] i show ?thesis
    by (cases "x = bid")
       (auto simp: escrow_inv_def paid_for_def Let_def split: BookingStatus.splits)
next
  case (ReportDispute x rsn)
  with c have "reportDispute w sender now x rsn = Inr w'" by simp
  from dispute_tb [OF this] i show ?thesis
    by (cases "x = bid")
       (auto simp: escrow_inv_def paid_for_def Let_def split: BookingStatus.splits)
next
  case (RateSession x stars)
  with c have "rateSession w sender now x stars = Inr w'" by simp
  from rate_tb [OF this] i show ?thesis
    by (cases "x = bid")
       (auto simp: escrow_inv_def paid_for_def Let_def split: BookingStatus.splits)
next
  case (ReleasePayment x)
  with c have "releasePayment w sender now x = Inr w'" by simp
  from release_tb [OF this] i show ?thesis
    by (cases "x = bid")
       (auto simp: escrow_inv_def paid_for_def Let_def split: BookingStatus.splits)
next
  case (HandleExpiredBooking x)
  with c have "handleExpiredBooking w sender now x = Inr w'" by simp
  from expire_tb [OF this] i show ?thesis
    by (cases "x = bid")
       (auto simp: escrow_inv_def paid_for_def Let_def split: BookingStatus.splits)
qed

lemma escrow_run_inv:
  "escrow_inv w0 bid w \<Longrightarrow> escrow_inv w0 bid (escrow_run w calls)"
proof (induction calls arbitrary: w)
  case Nil
  then show ?case by simp
next
  case (Cons c calls)
  obtain sender now call where c: "c = (sender, now, call)" by (cases c) auto
  have "escrow_inv w0 bid (after_call w (escrow_call w sender now call))"
  proof (cases "escrow_call w sender now call")
    case (Inl e)
    with Cons.prems show ?thesis by (simp add: after_call_def)
  next
    case (Inr w1)
    from escrow_call_inv [OF Cons.prems Inr] Inr show ?thesis by (simp add: after_call_def)
  qed
  from Cons.IH [OF this] c show ?case by simp
qed

lemma escrow_inv_start: "status (bookings (tb w0) bid) = Pending \<Longrightarrow> escrow_inv w0 bid w0"
  by (simp add: escrow_inv_def Let_def)

lemma refund_needs_pending:
  assumes "status (bookings (tb w) bid) \<noteq> Pending"
  shows "isl (rejectBooking w sender now bid) \<and> isl (cancelBooking w sender now bid)
     \<and> isl (handleExpiredBooking w sender now bid)"
  using assms
  by (auto simp: rejectBooking_def cancelBooking_def handleExpiredBooking_def Let_def)

lemma release_needs_accepted:
  assumes "status (bookings (tb w) bid) \<noteq> Accepted"
  shows "isl (releasePayment w sender now bid)"
  using assms by (simp add: release_not_accepted)

text \<open>
  C1.  Take a booking in status Pending and any sequence of the eight escrow
  operations, on this or on other bookings, by any callers at any times.  The transfers
  made for the booking since then are determined by its status: none while it is
  Pending, Accepted or Disputed; exactly one refund of \<open>totalAmount\<close> to the buyer once
  it is Rejected, Cancelled or Expired; exactly the split of \<open>totalAmount\<close> into the
  platform fee (when positive) and the KOL payment, which add up to \<open>totalAmount\<close>, once
  it is Completed.  So the booking is paid out at most once, in full, along one path
  only.  The three refunding operations fail unless the booking is Pending and
  \<open>releasePayment\<close> fails unless it is Accepted, so in a terminal status every operation
  that moves funds fails on it.
\<close>

theorem escrow_paid_once:
  fixes w0 w :: world and bid :: uint256 and b0 b :: Booking and amt fee :: nat
    and calls :: "(address \<times> uint256 \<times> escrow_op) list"
  defines "b0 \<equiv> bookings (tb w0) bid"
  defines "w \<equiv> escrow_run w0 calls"
  defines "b \<equiv> bookings (tb w) bid"
  defines "amt \<equiv> unat (totalAmount b0)"
  defines "fee \<equiv> amt * unat (platformFeePercent (tb w0)) div 10000"
  assumes "status b0 = Pending"
  shows "(status b \<in> {Pending, Accepted, Disputed} \<longrightarrow> paid_for w bid = paid_for w0 bid)
     \<and> (status b \<in> {Rejected, Cancelled, Expired} \<longrightarrow>
          paid_for w bid = paid_for w0 bid @ [(buyer b0, amt)])
     \<and> (status b = Completed \<longrightarrow>
          paid_for w bid = paid_for w0 bid
             @ (if fee > 0 then [(feeRecipient (tb w0), fee)] else []) @ [(kol b0, amt - fee)]
          \<and> fee + (amt - fee) = amt)
     \<and> (status b \<noteq> Pending \<longrightarrow>
          (\<forall>sender now. isl (rejectBooking w sender now bid)
             \<and> isl (cancelBooking w sender now bid)
             \<and> isl (handleExpiredBooking w sender now bid)))
     \<and> (status b \<noteq> Accepted \<longrightarrow> (\<forall>sender now. isl (releasePayment w sender now bid)))"
proof -
  from assms(6) have "escrow_inv w0 bid w0" unfolding b0_def by (rule escrow_inv_start)
  then have "escrow_inv w0 bid w" unfolding w_def by (rule escrow_run_inv)
  then have paid: "(status b \<in> {Pending, Accepted, Disputed} \<longrightarrow> paid_for w bid = paid_for w0 bid)
     \<and> (status b \<in> {Rejected, Cancelled, Expired} \<longrightarrow>
          paid_for w bid = paid_for w0 bid @ [(buyer b0, amt)])
     \<and> (status b = Completed \<longrightarrow>
          paid_for w bid = paid_for w0 bid
             @ (if fee > 0 then [(feeRecipient (tb w0), fee)] else []) @ [(kol b0, amt - fee)]
          \<and> fee + (amt - fee) = amt)"
    by (auto simp: escrow_inv_def Let_def b_def b0_def amt_def fee_def)
  have refund: "status b \<noteq> Pending \<longrightarrow>
          (\<forall>sender now. isl (rejectBooking w sender now bid)
             \<and> isl (cancelBooking w sender now bid)
             \<and> isl (handleExpiredBooking w sender now bid))"
    using refund_needs_pending [of w bid] unfolding b_def by blast
  have release: "status b \<noteq> Accepted \<longrightarrow> (\<forall>sender now. isl (releasePayment w sender now bid))"
    using release_needs_accepted [of w bid] unfolding b_def by blast
  from paid refund release show ?thesis by blast
qed

lemmas escrow_demo_defs = demo_calls_def acceptBooking_def completeSession_def rateSession_def
  releasePayment_def cancelBooking_def handleExpiredBooking_def after_call_def bind_def
  notExpired_def isExpired_def checked_add_def checked_mul_def checked_sub_def
  EXPIRY_PERIOD_def DISPUTE_PERIOD_def tracker_at_def setBooking_def transfer_def
  canReceive_def Let_def

lemma demo_pending_tb:
  "tb demo_pending = (tb_constructor 1 2)
     \<lparr>bookingIds := 1, tokenIds := 1,
      ticketOwner := (\<lambda>_. 0)(1 := 3), ticketURI := (\<lambda>_. [])(1 := ''ipfs''),
      bookings := (\<lambda>_. emptyBooking)(1 :=
        \<lparr>bookingId = 1, tokenId = 1, buyer = 3, kol = 4, pricePerSlot = 500, totalSlots = 2,
         totalAmount = 1000, fromTime = 4600, toTime = 8200, reason = ''call'',
         status = Pending, createdAt = 1000, updatedAt = 1000, sessionEndTime = 0,
         disputeReported = False, rating = 0, ratingSubmitted = False\<rparr>),
      buyerBookings := (\<lambda>_. [])(3 := [1]), kolBookings := (\<lambda>_. [])(4 := [1]),
      balance := 1000\<rparr>"
  by (simp add: demo_pending_def demo0_def deploy_def tb_constructor_def createBooking_def
      after_call_def bind_def checked_mul_def MIN_SLOT_DURATION_def increment_def tracker_at_def Let_def)

lemma demo_pending_env:
  "acceptsEther demo_pending = (\<lambda>_. True) \<and> tbAddr demo_pending = 10
   \<and> rtAddr (rep demo_pending) = 11 \<and> nftAddr (rep demo_pending) = 12"
  by (simp add: demo_pending_def demo0_def deploy_def tb_constructor_def createBooking_def
      after_call_def bind_def checked_mul_def MIN_SLOT_DURATION_def increment_def tracker_at_def Let_def)

lemma demo_calls_status:
  "status (bookings (tb (escrow_run demo_pending demo_calls)) 1) = Completed"
  by (simp add: escrow_demo_defs demo_pending_tb demo_pending_env tb_constructor_def)

theorem escrow_paid_once_witness:
  "status (bookings (tb demo_pending) 1) = Pending
   \<and> status (bookings (tb (escrow_run demo_pending demo_calls)) 1) = Completed
   \<and> paid_for (escrow_run demo_pending demo_calls) 1 = [(2, 25), (4, 975)]
   \<and> isl (cancelBooking (escrow_run demo_pending demo_calls) 3 600000 1)"
  using escrow_paid_once [of demo_pending 1 demo_calls] demo_calls_status demo_pending_tb
  by (simp add: paid_for_def tb_constructor_def)

end
